theory Spec2Isabelle
  imports Main "HOL-Library.Sublist"
begin

section \<open>The Go library functions the package calls\<close>

text \<open>
  Go strings and byte slices are sequences of bytes: both are \<open>string\<close> here.
  A buffered reader is the sequence of bytes that are still to arrive before the
  end of the stream; a read returns what it consumed together with the rest.
\<close>

type_synonym bytes = string

abbreviation LF :: char where "LF \<equiv> CHR 0x0A"
abbreviation CR :: char where "CR \<equiv> CHR 0x0D"
abbreviation TAB :: char where "TAB \<equiv> CHR 0x09"
abbreviation SP :: char where "SP \<equiv> CHR 0x20"

text \<open>
  Go errors. \<open>Errorf msg\<close> is \<open>fmt.Errorf\<close> of a text whose operands are strings;
  \<open>Wrapf msg err\<close> is \<open>fmt.Errorf(msg + "%v", err)\<close>. An operand that is a header map,
  an event or an event type is left out of the text with the brackets around it, and so
  is the newline that ends the message of the read loop.
\<close>

datatype error =
    EOF
  | ErrUnexpectedEOF
  | ErrSyntax
  | ErrRange
  | ProtocolError string
  | NumError string string error
  | EscapeError string
  | Errorf string
  | Wrapf string error

text \<open>A Go call either returns or panics (a run-time error that unwinds the caller).\<close>

datatype panic = NilDereference | MakeSliceLenOutOfRange | SliceBoundsOutOfRange

datatype 'a go = is_Panics: Panics (cause: panic) | is_Returns: Returns (result: 'a)

subsection \<open>Package strings\<close>

definition HasPrefix :: "string \<Rightarrow> string \<Rightarrow> bool" where
  "HasPrefix s p \<longleftrightarrow> length p \<le> length s \<and> take (length p) s = p"

fun Contains :: "string \<Rightarrow> string \<Rightarrow> bool" where
  "Contains [] sub \<longleftrightarrow> sub = []"
| "Contains (c # cs) sub \<longleftrightarrow> HasPrefix (c # cs) sub \<or> Contains cs sub"

fun Join :: "string list \<Rightarrow> string \<Rightarrow> string" where
  "Join [] sep = []"
| "Join [a] sep = a"
| "Join (a # b # bs) sep = a @ sep @ Join (b # bs) sep"

text \<open>
  \<open>strings.TrimSpace\<close> removes the leading and trailing white space of Unicode.
  \<open>whiteSpace\<close> lists the UTF-8 encodings of the code points \<open>unicode.IsSpace\<close> accepts:
  the six ASCII ones, U+0085, U+00A0, U+1680, U+2000 to U+200A, U+2028, U+2029, U+202F,
  U+205F and U+3000.
\<close>

definition whiteSpace :: "string list" where
  "whiteSpace =
     [[TAB], [LF], [CHR 0x0B], [CHR 0x0C], [CR], [SP],
      [CHR 0xC2, CHR 0x85], [CHR 0xC2, CHR 0xA0], [CHR 0xE1, CHR 0x9A, CHR 0x80],
      [CHR 0xE2, CHR 0x80, CHR 0x80], [CHR 0xE2, CHR 0x80, CHR 0x81],
      [CHR 0xE2, CHR 0x80, CHR 0x82], [CHR 0xE2, CHR 0x80, CHR 0x83],
      [CHR 0xE2, CHR 0x80, CHR 0x84], [CHR 0xE2, CHR 0x80, CHR 0x85],
      [CHR 0xE2, CHR 0x80, CHR 0x86], [CHR 0xE2, CHR 0x80, CHR 0x87],
      [CHR 0xE2, CHR 0x80, CHR 0x88], [CHR 0xE2, CHR 0x80, CHR 0x89],
      [CHR 0xE2, CHR 0x80, CHR 0x8A], [CHR 0xE2, CHR 0x80, CHR 0xA8],
      [CHR 0xE2, CHR 0x80, CHR 0xA9], [CHR 0xE2, CHR 0x80, CHR 0xAF],
      [CHR 0xE2, CHR 0x81, CHR 0x9F], [CHR 0xE3, CHR 0x80, CHR 0x80]]"

text \<open>The number of bytes of the first of \<open>ws\<close> that \<open>s\<close> starts with, 0 when there is none.\<close>

definition leading :: "string list \<Rightarrow> string \<Rightarrow> nat" where
  "leading ws s = (case filter (\<lambda>w. w \<noteq> [] \<and> HasPrefix s w) ws of [] \<Rightarrow> 0 | w # _ \<Rightarrow> length w)"

lemma leading_nonempty: "leading ws s \<noteq> 0 \<Longrightarrow> s \<noteq> []"
proof -
  assume pos: "leading ws s \<noteq> 0"
  then obtain w rest where f: "filter (\<lambda>w. w \<noteq> [] \<and> HasPrefix s w) ws = w # rest"
    by (auto simp: leading_def split: list.splits)
  have "w \<in> set (filter (\<lambda>w. w \<noteq> [] \<and> HasPrefix s w) ws)"
    by (simp add: f)
  then have "w \<noteq> []" and "HasPrefix s w"
    by simp_all
  then show "s \<noteq> []"
    by (auto simp: HasPrefix_def)
qed

function TrimLeftOf :: "string list \<Rightarrow> string \<Rightarrow> string" where
  "TrimLeftOf ws s = (if leading ws s = 0 then s else TrimLeftOf ws (drop (leading ws s) s))"
  by pat_completeness auto
termination
proof (relation "measure (\<lambda>(ws, s). length s)")
  show "wf (measure (\<lambda>(ws, s). length s))"
    by simp
next
  fix ws :: "string list" and s :: string
  assume "leading ws s \<noteq> 0"
  then show "((ws, drop (leading ws s) s), (ws, s)) \<in> measure (\<lambda>(ws, s). length s)"
    using leading_nonempty [of ws s] by simp
qed

declare TrimLeftOf.simps [simp del]

definition TrimSpace :: "string \<Rightarrow> string" where
  "TrimSpace s = rev (TrimLeftOf (map rev whiteSpace) (rev (TrimLeftOf whiteSpace s)))"

subsection \<open>Package strconv\<close>

definition isDigit :: "char \<Rightarrow> bool" where
  "isDigit c \<longleftrightarrow> (48::nat) \<le> of_char c \<and> (of_char c :: nat) \<le> 57"

definition digitVal :: "char \<Rightarrow> int" where
  "digitVal c = int (of_char c) - 48"

text \<open>
  The digit loop of \<open>strconv.ParseUint\<close> in base 10 for 64 bits: the first byte that is
  no digit is a syntax error with value 0, the first step that leaves the range of
  \<open>uint64\<close> is a range error with the largest value.
\<close>

fun ParseUint_loop :: "string \<Rightarrow> int \<Rightarrow> int \<times> error option" where
  "ParseUint_loop [] n = (n, None)"
| "ParseUint_loop (d # ds) n =
     (if \<not> isDigit d then (0, Some ErrSyntax)
      else if 2 ^ 64 - 1 < 10 * n + digitVal d then (2 ^ 64 - 1, Some ErrRange)
      else ParseUint_loop ds (10 * n + digitVal d))"

text \<open>
  \<open>strconv.Atoi\<close> where \<open>int\<close> has 64 bits: an optional sign, then decimal digits. It
  returns 0 with a syntax error, or the nearest bound with a range error.
\<close>

definition Atoi :: "string \<Rightarrow> int \<times> error option" where
  "Atoi s =
     (if s = [] then (0, Some (NumError ''Atoi'' s ErrSyntax))
      else
        let neg = (hd s = CHR ''-'');
            ds = (if hd s = CHR ''+'' \<or> hd s = CHR ''-'' then tl s else s)
        in if ds = [] then (0, Some (NumError ''Atoi'' s ErrSyntax))
           else case ParseUint_loop ds 0 of
             (un, Some ErrSyntax) \<Rightarrow> (0, Some (NumError ''Atoi'' s ErrSyntax))
           | (un, _) \<Rightarrow>
               if \<not> neg \<and> 2 ^ 63 \<le> un then (2 ^ 63 - 1, Some (NumError ''Atoi'' s ErrRange))
               else if neg \<and> 2 ^ 63 < un then (- (2 ^ 63), Some (NumError ''Atoi'' s ErrRange))
               else (if neg then - un else un, None))"

subsection \<open>Package net/url\<close>

definition ishex :: "char \<Rightarrow> bool" where
  "ishex c \<longleftrightarrow> isDigit c \<or> ((97::nat) \<le> of_char c \<and> (of_char c :: nat) \<le> 102)
     \<or> ((65::nat) \<le> of_char c \<and> (of_char c :: nat) \<le> 70)"

definition unhex :: "char \<Rightarrow> nat" where
  "unhex c = (if isDigit c then of_char c - 48
              else if (97::nat) \<le> of_char c then of_char c - 97 + 10
              else of_char c - 65 + 10)"

text \<open>
  The decoding of a query component: \<open>%XY\<close> is the byte with hexadecimal digits \<open>XY\<close>,
  \<open>+\<close> is a space; \<open>None\<close> when a \<open>%\<close> is not followed by two hexadecimal digits.
\<close>

fun unescape :: "string \<Rightarrow> string option" where
  "unescape [] = Some []"
| "unescape (c # cs) =
     (if c = CHR ''%'' then
        (case cs of
           h1 # h2 # rest \<Rightarrow>
             if ishex h1 \<and> ishex h2
             then map_option ((#) (char_of (unhex h1 * 16 + unhex h2))) (unescape rest)
             else None
         | _ \<Rightarrow> None)
      else if c = CHR ''+'' then map_option ((#) SP) (unescape cs)
      else map_option ((#) c) (unescape cs))"

text \<open>\<open>url.QueryUnescape\<close> returns the empty string together with its error.\<close>

definition QueryUnescape :: "string \<Rightarrow> string \<times> error option" where
  "QueryUnescape s = (case unescape s of None \<Rightarrow> ([], Some (EscapeError s)) | Some t \<Rightarrow> (t, None))"

subsection \<open>Package io\<close>

text \<open>
  \<open>io.ReadFull\<close> into a buffer of \<open>n\<close> bytes: the bytes read, the error and the rest of
  the stream. A stream that ends early gives \<open>io.EOF\<close> when no byte was read and
  \<open>io.ErrUnexpectedEOF\<close> otherwise.
\<close>

definition ReadFull :: "bytes \<Rightarrow> nat \<Rightarrow> bytes \<times> error option \<times> bytes" where
  "ReadFull r n =
     (if n \<le> length r then (take n r, None, drop n r)
      else (r, Some (if r = [] then EOF else ErrUnexpectedEOF), []))"

subsection \<open>Package net/textproto\<close>

type_synonym MIMEHeader = "string \<rightharpoonup> string list"

definition isLower :: "char \<Rightarrow> bool" where
  "isLower c \<longleftrightarrow> (97::nat) \<le> of_char c \<and> (of_char c :: nat) \<le> 122"

definition isUpper :: "char \<Rightarrow> bool" where
  "isUpper c \<longleftrightarrow> (65::nat) \<le> of_char c \<and> (of_char c :: nat) \<le> 90"

definition validHeaderFieldByte :: "char \<Rightarrow> bool" where
  "validHeaderFieldByte c \<longleftrightarrow>
     isLower c \<or> isUpper c \<or> isDigit c \<or> c \<in> set ''!#$%&*+-.^_`|~'' \<or> c = CHR 0x27"

fun canonical :: "bool \<Rightarrow> string \<Rightarrow> string" where
  "canonical upper [] = []"
| "canonical upper (c # cs) =
     (let c' = (if upper \<and> isLower c then char_of (of_char c - (32::nat))
                else if \<not> upper \<and> isUpper c then char_of (of_char c + (32::nat))
                else c)
      in c' # canonical (c' = CHR ''-'') cs)"

text \<open>
  \<open>textproto.CanonicalMIMEHeaderKey\<close>: the first letter and every letter after a hyphen in
  upper case, the others in lower case; a key with a byte that no header field name may
  hold is returned as it is.
\<close>

definition CanonicalMIMEHeaderKey :: "string \<Rightarrow> string" where
  "CanonicalMIMEHeaderKey s = (if list_all validHeaderFieldByte s then canonical True s else s)"

text \<open>\<open>MIMEHeader.Get\<close>: the first value stored under the canonical form of the key.\<close>

definition MIMEHeader_Get :: "MIMEHeader \<Rightarrow> string \<Rightarrow> string" where
  "MIMEHeader_Get h key =
     (case h (CanonicalMIMEHeaderKey key) of None \<Rightarrow> [] | Some [] \<Rightarrow> [] | Some (v # _) \<Rightarrow> v)"

definition isBlank :: "char \<Rightarrow> bool" where
  "isBlank c \<longleftrightarrow> c = SP \<or> c = TAB"

text \<open>\<open>trim\<close> of textproto: the spaces and tabs at both ends of a line.\<close>

definition trim :: "bytes \<Rightarrow> bytes" where
  "trim l = rev (dropWhile isBlank (rev (dropWhile isBlank l)))"

text \<open>
  One line of the stream without its end-of-line bytes (\<open>LF\<close> or \<open>CR LF\<close>), and the rest
  of the stream; \<open>None\<close> is \<open>io.EOF\<close>. A last line that the end of the stream cuts is
  returned as it is.
\<close>

definition readLine :: "bytes \<Rightarrow> (bytes \<times> bytes) option" where
  "readLine r =
     (if r = [] then None
      else
        let l = takeWhile (\<lambda>c. c \<noteq> LF) r; rest = dropWhile (\<lambda>c. c \<noteq> LF) r
        in if rest = [] then Some (l, [])
           else Some (if l \<noteq> [] \<and> last l = CR then butlast l else l, tl rest))"

lemma readLine_shorter: "readLine r = Some (l, r') \<Longrightarrow> length r' < length r"
proof -
  assume a: "readLine r = Some (l, r')"
  then have ne: "r \<noteq> []"
    by (auto simp: readLine_def)
  have le: "length (dropWhile (\<lambda>c. c \<noteq> LF) r) \<le> length r"
    by (rule length_dropWhile_le)
  show ?thesis
  proof (cases "dropWhile (\<lambda>c. c \<noteq> LF) r = []")
    case True
    with a ne show ?thesis
      by (auto simp: readLine_def Let_def)
  next
    case False
    with a ne have "r' = tl (dropWhile (\<lambda>c. c \<noteq> LF) r)"
      by (auto simp: readLine_def Let_def split: if_splits)
    with False le show ?thesis
      by (cases "dropWhile (\<lambda>c. c \<noteq> LF) r") auto
  qed
qed

text \<open>
  The continuation lines of a header line: while the next byte is a space or a tab, the
  spaces are skipped and the trimmed line is appended after one space.
\<close>

function readContinuation :: "bytes \<Rightarrow> bytes \<Rightarrow> bytes \<times> bytes" where
  "readContinuation acc r =
     (if r \<noteq> [] \<and> isBlank (hd r) then
        (case readLine (dropWhile isBlank r) of
           None \<Rightarrow> (acc, dropWhile isBlank r)
         | Some (l, r') \<Rightarrow> readContinuation (acc @ [SP] @ trim l) r')
      else (acc, r))"
  by pat_completeness auto
termination
proof (relation "measure (\<lambda>(acc, r). length r)")
  show "wf (measure (\<lambda>(acc, r). length r))"
    by simp
next
  fix acc r :: bytes and x2 :: "bytes \<times> bytes" and l r' :: bytes
  assume "readLine (dropWhile isBlank r) = Some x2" and "(l, r') = x2"
  then have "length r' < length (dropWhile isBlank r)"
    using readLine_shorter [of "dropWhile isBlank r" l r'] by simp
  moreover have "length (dropWhile isBlank r) \<le> length r"
    by (rule length_dropWhile_le)
  ultimately show "((acc @ [SP] @ trim l, r'), (acc, r)) \<in> measure (\<lambda>(acc, r). length r)"
    by simp
qed

declare readContinuation.simps [simp del]

lemma readContinuation_length: "length (snd (readContinuation acc r)) \<le> length r"
proof (induction acc r rule: readContinuation.induct)
  case (1 acc r)
  show ?case
  proof (cases "r \<noteq> [] \<and> isBlank (hd r)")
    case False
    then show ?thesis
      by (subst readContinuation.simps) auto
  next
    case True
    have le: "length (dropWhile isBlank r) \<le> length r"
      by (rule length_dropWhile_le)
    show ?thesis
    proof (cases "readLine (dropWhile isBlank r)")
      case None
      with True le show ?thesis
        by (subst readContinuation.simps) simp
    next
      case (Some p)
      obtain l r' where p: "p = (l, r')"
        by (cases p)
      from Some p have "length r' < length (dropWhile isBlank r)"
        using readLine_shorter by simp
      moreover from "1.IH" [OF True Some p [symmetric]]
      have "length (snd (readContinuation (acc @ [SP] @ trim l) r')) \<le> length r'" .
      ultimately show ?thesis
        using True Some p le by (subst readContinuation.simps) simp
    qed
  qed
qed

text \<open>
  The loop of \<open>Reader.ReadMIMEHeader\<close>: a header line with its continuation lines, up to
  the blank line. The key ends at the first colon and loses the spaces before it; the
  value starts after the colon and the spaces that follow; a line with an empty key is
  skipped. The map read so far is returned with every error.
\<close>

function readHeaderLines :: "MIMEHeader \<Rightarrow> bytes \<Rightarrow> MIMEHeader \<times> error option \<times> bytes" where
  "readHeaderLines m r =
     (case readLine r of
        None \<Rightarrow> (m, Some EOF, r)
      | Some (l, r1) \<Rightarrow>
          if l = [] then (m, None, r1)
          else
            let kv = fst (readContinuation (trim l) r1);
                r2 = snd (readContinuation (trim l) r1)
            in if kv = [] then (m, None, r2)
               else if CHR '':'' \<notin> set kv
               then (m, Some (ProtocolError (''malformed MIME header line: '' @ kv)), r2)
               else
                 let key = CanonicalMIMEHeaderKey
                             (rev (dropWhile (\<lambda>c. c = SP) (rev (takeWhile (\<lambda>c. c \<noteq> CHR '':'') kv))));
                     v = dropWhile isBlank (tl (dropWhile (\<lambda>c. c \<noteq> CHR '':'') kv))
                 in if key = [] then readHeaderLines m r2
                    else readHeaderLines
                           (m(key \<mapsto> (case m key of None \<Rightarrow> [] | Some vv \<Rightarrow> vv) @ [v])) r2)"
  by pat_completeness auto
termination
proof (relation "measure (\<lambda>(m, r). length r)")
  show "wf (measure (\<lambda>(m, r). length r))"
    by simp
next
  fix m :: MIMEHeader and r :: bytes and x2 :: "bytes \<times> bytes" and l r1 kv r2 key :: bytes
  assume "readLine r = Some x2" and "(l, r1) = x2"
    and "r2 = snd (readContinuation (trim l) r1)"
  then show "((m, r2), (m, r)) \<in> measure (\<lambda>(m, r). length r)"
    using readLine_shorter [of r l r1] readContinuation_length [of "trim l" r1] by simp
next
  fix m :: MIMEHeader and r :: bytes and x2 :: "bytes \<times> bytes" and l r1 kv r2 key v :: bytes
  assume "readLine r = Some x2" and "(l, r1) = x2"
    and "r2 = snd (readContinuation (trim l) r1)"
  then show "((m(key \<mapsto> (case m key of None \<Rightarrow> [] | Some vv \<Rightarrow> vv) @ [v]), r2), (m, r))
      \<in> measure (\<lambda>(m, r). length r)"
    using readLine_shorter [of r l r1] readContinuation_length [of "trim l" r1] by simp
qed

declare readHeaderLines.simps [simp del]

text \<open>
  \<open>Reader.ReadMIMEHeader\<close>: the header map, the error and the rest of the stream. A
  first line that starts with a space or a tab is a protocol error. The releases of Go
  differ on some malformed lines (a key with a space or with a byte that no field name
  may hold); the model keeps such a key as the releases of the time of the package do.
  The properties below use the reader through the map, the error and the rest that it
  returns, and evaluate it on well-formed header blocks only.
\<close>

definition ReadMIMEHeader :: "bytes \<Rightarrow> MIMEHeader \<times> error option \<times> bytes" where
  "ReadMIMEHeader r =
     (if r \<noteq> [] \<and> isBlank (hd r) then
        (case readLine r of
           None \<Rightarrow> (Map.empty, Some EOF, r)
         | Some (l, r1) \<Rightarrow>
             (Map.empty, Some (ProtocolError (''malformed MIME header initial line: '' @ l)), r1))
      else readHeaderLines Map.empty r)"

section \<open>Commands\<close>

record Command =
  Sync :: bool
  Command_UId :: string
  Command_App :: string
  Args :: string

text \<open>
  \<open>Command.Serialize\<close> writes four pieces into a buffer: the first two by \<open>Sprintf\<close> with
  \<open>%s\<close> operands, then the event-lock line, then two newlines.
\<close>

definition Serialize :: "Command \<Rightarrow> bytes" where
  "Serialize cmd =
     (''sendmsg '' @ Command_UId cmd @ [LF] @ ''call-command: execute'' @ [LF])
     @ (''execute-app-name: '' @ Command_App cmd @ [LF]
        @ ''execute-app-arg: '' @ Args cmd @ [LF])
     @ (if Sync cmd then ''event-lock: true'' @ [LF] else ''event-lock: false'' @ [LF])
     @ [LF, LF]"

section \<open>Events\<close>

record MIMEMap =
  Map :: MIMEHeader
  IsEscaped :: bool

datatype EventType =
    EventError
  | EventState
  | EventConnect
  | EventAuth
  | EventCommandReply
  | EventApiResponse
  | EventDisconnect
  | EventGeneric

text \<open>\<open>EventName\<close> is a Go \<open>int\<close>; its constants number the names below from 0.\<close>

type_synonym EventName = int

definition EventName_names :: "string list" where
  "EventName_names =
     [''CUSTOM'', ''CLONE'', ''CHANNEL_CREATE'', ''CHANNEL_DESTROY'', ''CHANNEL_STATE'',
      ''CHANNEL_CALLSTATE'', ''CHANNEL_ANSWER'', ''CHANNEL_HANGUP'',
      ''CHANNEL_HANGUP_COMPLETE'', ''CHANNEL_EXECUTE'', ''CHANNEL_EXECUTE_COMPLETE'',
      ''CHANNEL_HOLD'', ''CHANNEL_UNHOLD'', ''CHANNEL_BRIDGE'', ''CHANNEL_UNBRIDGE'',
      ''CHANNEL_PROGRESS'', ''CHANNEL_PROGRESS_MEDIA'', ''CHANNEL_OUTGOING'',
      ''CHANNEL_PARK'', ''CHANNEL_UNPARK'', ''CHANNEL_APPLICATION'', ''CHANNEL_ORIGINATE'',
      ''CHANNEL_UUID'', ''API'', ''LOG'', ''INBOUND_CHAN'', ''OUTBOUND_CHAN'', ''STARTUP'',
      ''SHUTDOWN'', ''PUBLISH'', ''UNPUBLISH'', ''TALK'', ''NOTALK'', ''SESSION_CRASH'',
      ''MODULE_LOAD'', ''MODULE_UNLOAD'', ''DTMF'', ''MESSAGE'', ''PRESENCE_IN'',
      ''NOTIFY_IN'', ''PRESENCE_OUT'', ''PRESENCE_PROBE'', ''MESSAGE_WAITING'',
      ''MESSAGE_QUERY'', ''ROSTER'', ''CODEC'', ''BACKGROUND_JOB'', ''DETECTED_SPEECH'',
      ''DETECTED_TONE'', ''PRIVATE_COMMAND'', ''HEARTBEAT'', ''TRAP'', ''ADD_SCHEDULE'',
      ''DEL_SCHEDULE'', ''EXE_SCHEDULE'', ''RE_SCHEDULE'', ''RELOADXML'', ''NOTIFY'',
      ''PHONE_FEATURE'', ''PHONE_FEATURE_SUBSCRIBE'', ''SEND_MESSAGE'', ''RECV_MESSAGE'',
      ''REQUEST_PARAMS'', ''CHANNEL_DATA'', ''GENERAL'', ''COMMAND'',
      ''SESSION_HEARTBEAT'', ''CLIENT_DISCONNECTED'', ''SERVER_DISCONNECTED'',
      ''SEND_INFO'', ''RECV_INFO'', ''RECV_RTCP_MESSAGE'', ''CALL_SECURE'', ''NAT'',
      ''RECORD_START'', ''RECORD_STOP'', ''PLAYBACK_START'', ''PLAYBACK_STOP'',
      ''CALL_UPDATE'', ''FAILURE'', ''SOCKET_DATA'', ''MEDIA_BUG_START'',
      ''MEDIA_BUG_STOP'', ''CONFERENCE_DATA_QUERY'', ''CONFERENCE_DATA'',
      ''CALL_SETUP_REQ'', ''CALL_SETUP_RESULT'', ''CALL_DETAIL'', ''DEVICE_STATE'',
      ''ALL'']"

definition CUSTOM :: EventName where
  "CUSTOM = 0"

definition CHANNEL_ANSWER :: EventName where
  "CHANNEL_ANSWER = 6"

fun index_of :: "string \<Rightarrow> string list \<Rightarrow> nat option" where
  "index_of s [] = None"
| "index_of s (n # ns) = (if s = n then Some 0 else map_option Suc (index_of s ns))"

text \<open>
  Modelled from the spec: \<open>EventNameString\<close> is generated by \<open>enumer\<close> into a file that is
  not among the sources. It is the total lookup of a name among the declared constants;
  a name that is none of them gives the zero tag (and an error that the decoder drops).
\<close>

definition EventNameString :: "string \<Rightarrow> EventName \<times> error option" where
  "EventNameString s =
     (case index_of s EventName_names of
        Some i \<Rightarrow> (int i, None)
      | None \<Rightarrow> (0, Some (Errorf (s @ '' does not belong to EventName values''))))"

record Event =
  UId :: string
  Name :: EventName
  App :: string
  AppData :: string
  Stamp :: int
  Type :: EventType
  Header :: MIMEMap
  Body :: MIMEMap
  RawBody :: bytes

text \<open>The zero value of \<open>Event\<close>, which \<open>&Event{}\<close> allocates.\<close>

definition Event_zero :: Event where
  "Event_zero =
     \<lparr>UId = [], Name = 0, App = [], AppData = [], Stamp = 0, Type = EventError,
      Header = \<lparr>Map = Map.empty, IsEscaped = False\<rparr>,
      Body = \<lparr>Map = Map.empty, IsEscaped = False\<rparr>, RawBody = []\<rparr>"

definition MIMEMap_Get :: "MIMEMap \<Rightarrow> string \<Rightarrow> string" where
  "MIMEMap_Get m key =
     (let val = MIMEHeader_Get (Map m) key
      in if IsEscaped m then fst (QueryUnescape val) else val)"

definition Event_Get :: "Event \<Rightarrow> string \<Rightarrow> string" where
  "Event_Get e header =
     (let val = MIMEMap_Get (Header e) header
      in if val = [] then MIMEMap_Get (Body e) header else val)"

definition parseTextBody :: "Event \<Rightarrow> Event \<times> error option" where
  "parseTextBody e =
     (case ReadMIMEHeader (RawBody e) of
        (bm, Some err, _) \<Rightarrow>
          (e\<lparr>Body := (Body e)\<lparr>Map := bm\<rparr>\<rparr>, Some (Wrapf ''parse text body: '' err))
      | (bm, None, _) \<Rightarrow>
          let e1 = e\<lparr>Body := \<lparr>Map = bm, IsEscaped = True\<rparr>\<rparr>;
              e2 = e1\<lparr>UId := Event_Get e1 ''Unique-ID''\<rparr>;
              e3 = e2\<lparr>Name := fst (EventNameString (Event_Get e2 ''Event-Name''))\<rparr>;
              e4 = e3\<lparr>App := Event_Get e3 ''Application''\<rparr>;
              e5 = e4\<lparr>AppData := TrimSpace (Event_Get e4 ''Application-Data'')\<rparr>
          in (e5\<lparr>Stamp := fst (Atoi (Event_Get e5 ''Event-Date-Timestamp''))\<rparr>,
              snd (Atoi (Event_Get e5 ''Event-Date-Timestamp''))))"

text \<open>
  The \<open>switch\<close> of \<open>NewEventFromReader\<close> on the content type, with the \<open>return e, err\<close>
  that follows it: the pair of the event pointer (\<open>None\<close> is \<open>nil\<close>) and the error.
\<close>

definition NewEventFromReader_switch :: "Event \<Rightarrow> Event option \<times> error option" where
  "NewEventFromReader_switch e =
     (let ct = Event_Get e ''Content-Type'' in
      if ct = ''auth/request'' then (Some (e\<lparr>Type := EventAuth\<rparr>), None)
      else if ct = ''command/reply'' then
        (let e1 = e\<lparr>Type := EventCommandReply\<rparr>;
             reply = Event_Get e1 ''Reply-Text''
         in if \<not> Contains reply ''+OK'' \<and> \<not> Contains reply ''%2BOK''
            then (None, Some (Errorf (''command error: '' @ TrimSpace reply)))
            else if Contains reply ''%''
            then (Some (e1\<lparr>Header := (Header e1)\<lparr>IsEscaped := True\<rparr>\<rparr>), None)
            else (Some e1, None))
      else if ct = ''text/event-plain'' then
        (Some (fst (parseTextBody (e\<lparr>Type := EventGeneric\<rparr>))),
         snd (parseTextBody (e\<lparr>Type := EventGeneric\<rparr>)))
      else if ct = ''text/event-json'' \<or> ct = ''text/event-xml'' then
        (Some e, Some (Errorf (''unsupported format '' @ Event_Get e ''Content-Type'')))
      else if ct = ''text/disconnect-notice'' \<or> ct = ''text/rude-rejection'' then
        (Some (e\<lparr>Type := EventDisconnect\<rparr>), None)
      else if ct = ''api/response'' then (Some (e\<lparr>Type := EventApiResponse\<rparr>), None)
      else (Some e, None))"

text \<open>
  The first part of \<open>NewEventFromReader\<close>, up to the \<open>switch\<close>: the header block and
  the raw body. It returns the error with which the function returns \<open>nil, err\<close>, or the
  event as it enters the \<open>switch\<close>, and the rest of the stream. \<open>make\<close> panics on a
  negative length and on a length above \<open>maxAlloc\<close>.
\<close>

text \<open>
  The largest length for which \<open>make([]byte, len)\<close> does not panic: the allocation
  limit of the runtime, \<open>2 ^ 48\<close> bytes where \<open>int\<close> has 64 bits and addresses have 48.
  Below the limit the memory is taken to be there (a machine that cannot provide it ends
  the program with a fatal error).
\<close>

definition maxAlloc :: int where
  "maxAlloc = 2 ^ 48"

definition NewEventFromReader_read :: "bytes \<Rightarrow> ((error + Event) \<times> bytes) go" where
  "NewEventFromReader_read r =
     (case ReadMIMEHeader r of
        (hm, Some err, r1) \<Rightarrow>
          if err = EOF then Returns (Inl err, r1)
          else Returns (Inl (Wrapf ''parse headers: '' err), r1)
      | (hm, None, r1) \<Rightarrow>
          let e = Event_zero\<lparr>Header := \<lparr>Map = hm, IsEscaped = False\<rparr>\<rparr>;
              slen = Event_Get e ''Content-Length''
          in if slen \<noteq> [] then
               (case Atoi slen of
                  (len, Some err) \<Rightarrow>
                    Returns (Inl (Wrapf (''convert content-length '' @ slen @ '': '') err), r1)
                | (len, None) \<Rightarrow>
                    if len < 0 \<or> maxAlloc < len then Panics MakeSliceLenOutOfRange
                    else
                      (case ReadFull r1 (nat len) of
                         (buf, Some err, r2) \<Rightarrow> Returns (Inl (Wrapf ''read body: '' err), r2)
                       | (buf, None, r2) \<Rightarrow> Returns (Inr (e\<lparr>RawBody := buf\<rparr>), r2)))
             else Returns (Inr e, r1))"

text \<open>
  \<open>NewEventFromReader\<close>: the returned pair of event pointer and error, and the rest of
  the stream.
\<close>

definition NewEventFromReader :: "bytes \<Rightarrow> ((Event option \<times> error option) \<times> bytes) go" where
  "NewEventFromReader r =
     (case NewEventFromReader_read r of
        Panics p \<Rightarrow> Panics p
      | Returns (Inl err, r') \<Rightarrow> Returns ((None, Some err), r')
      | Returns (Inr e, r') \<Rightarrow> Returns (NewEventFromReader_switch e, r'))"

text \<open>
  The slice expression \<open>b[lo:hi]\<close> on a slice whose capacity is its length, as \<open>make\<close>
  allocates it: it panics unless \<open>0 \<le> lo \<le> hi \<le> len(b)\<close>.
\<close>

definition slice :: "bytes \<Rightarrow> int \<Rightarrow> int \<Rightarrow> bytes go" where
  "slice b lo hi =
     (if 0 \<le> lo \<and> lo \<le> hi \<and> hi \<le> int (length b)
      then Returns (take (nat (hi - lo)) (drop (nat lo) b))
      else Panics SliceBoundsOutOfRange)"

text \<open>
  The two bounds are computed on unbounded integers: a 64-bit subtraction wraps only for
  a negative \<open>bblen\<close>, where the slice expression panics with and without the wrap-around.
\<close>

definition GetTextBody :: "Event \<Rightarrow> string go" where
  "GetTextBody e =
     (let slen = MIMEMap_Get (Body e) ''Content-Length'' in
      if slen \<noteq> [] then
        (case Atoi slen of
           (bblen, Some err) \<Rightarrow> Returns []
         | (bblen, None) \<Rightarrow>
             let blen = int (length (RawBody e))
             in slice (RawBody e) (blen - bblen) (blen - 1))
      else Returns [])"

section \<open>Connections\<close>

text \<open>The calls that a connection makes to its handler; \<open>go\<close> starts a call as a task of its own.\<close>

datatype call = CallOnDisconnect Event | CallOnClose | GoOnEvent Event

text \<open>
  The fields of \<open>Connection\<close> that the functions below read or write. \<open>socket_closed\<close>
  tells whether \<open>socket.Close\<close> was called; \<open>buffer\<close> holds the bytes that the buffered
  reader has still to deliver and \<open>written\<close> the bytes that the buffered writer flushed;
  \<open>werr\<close> is the error with which the buffered writer answers a write, \<open>None\<close> when it
  takes the bytes. \<open>calls\<close> lists the handler calls made so far. The two channels
  \<open>cmdReply\<close> and \<open>apiResp\<close> have no buffer: a send waits for a receive. For each of
  them, \<open>receivers\<close> counts the callers that wait, or will come to wait, in a receive on
  the channel, and \<open>received\<close> lists the events that receivers took from it, oldest
  first.
\<close>

record Connection =
  socket_closed :: bool
  buffer :: bytes
  written :: bytes
  werr :: "error option"
  cmdReply_receivers :: nat
  cmdReply_received :: "Event list"
  apiResp_receivers :: nat
  apiResp_received :: "Event list"
  Password :: string
  Connected :: bool
  calls :: "call list"

text \<open>
  The handler is code of the application. The two hooks that the connection calls and
  waits for may change the connection they are given.
\<close>

record ConnectionHandler =
  OnDisconnect :: "Connection \<Rightarrow> Event \<Rightarrow> Connection"
  OnClose :: "Connection \<Rightarrow> Connection"

definition Write :: "Connection \<Rightarrow> bytes \<Rightarrow> Connection \<times> error option" where
  "Write con b =
     (case werr con of
        Some err \<Rightarrow> (con, Some err)
      | None \<Rightarrow> (con\<lparr>written := written con @ b\<rparr>, None))"

definition Close :: "ConnectionHandler \<Rightarrow> Connection \<Rightarrow> Connection" where
  "Close H con =
     (let con1 = (if Connected con
                  then OnClose H (con\<lparr>Connected := False, calls := calls con @ [CallOnClose]\<rparr>)
                  else con)
      in con1\<lparr>socket_closed := True\<rparr>)"

text \<open>The operand \<open>args\<close> of \<open>%s\<close>: a slice of strings is printed between brackets.\<close>

definition Sprint_strings :: "string list \<Rightarrow> string" where
  "Sprint_strings args = ''['' @ Join args '' '' @ '']''"

text \<open>
  A request that waits for its answer receives an event from a channel. The event
  received is the argument \<open>ev\<close>; a call that never receives one never returns.
\<close>

definition SendRecv ::
  "Connection \<Rightarrow> string \<Rightarrow> string list \<Rightarrow> Event \<Rightarrow> Connection \<times> (Event option \<times> error option)"
where
  "SendRecv con cmd args ev =
     (case Write con (cmd @ concat (map (\<lambda>arg. '' '' @ arg) args) @ [LF, LF]) of
        (con1, Some err) \<Rightarrow> (con1, (None, Some (Wrapf ''send bytes: '' err)))
      | (con1, None) \<Rightarrow>
          let reply = Event_Get ev ''Reply-Text''
          in if HasPrefix reply ''-ERR''
             then (con1, (None, Some (Errorf (''SendRecv '' @ cmd @ '' '' @ Sprint_strings args
                                               @ '': '' @ TrimSpace reply))))
             else (con1, (Some ev, None)))"

definition Api ::
  "Connection \<Rightarrow> string \<Rightarrow> string list \<Rightarrow> Event \<Rightarrow> Connection \<times> (string \<times> error option)"
where
  "Api con cmd args ev =
     (case Write con (''api '' @ cmd @ concat (map (\<lambda>arg. '' '' @ arg) args) @ [LF, LF]) of
        (con1, Some err) \<Rightarrow> (con1, ([], Some (Wrapf ''send bytes: '' err)))
      | (con1, None) \<Rightarrow>
          let resp = TrimSpace (RawBody ev)
          in if HasPrefix resp ''-ERR''
             then (con1, ([], Some (Errorf (''api '' @ cmd @ '' '' @ Sprint_strings args
                                             @ '': '' @ resp))))
             else (con1, (RawBody ev, None)))"

definition Command_Execute ::
  "Command \<Rightarrow> Connection \<Rightarrow> Event \<Rightarrow> Connection \<times> (Event option \<times> error option)"
where
  "Command_Execute cmd con ev =
     (case Write con (Serialize cmd) of
        (con1, Some err) \<Rightarrow> (con1, (None, Some (Wrapf ''execute command: con write: '' err)))
      | (con1, None) \<Rightarrow> (con1, (Some ev, None)))"

text \<open>The read \<open>ev.Type\<close> through the pointer \<open>ev\<close>: a nil pointer panics.\<close>

fun Event_Type :: "Event option \<Rightarrow> EventType go" where
  "Event_Type None = Panics NilDereference"
| "Event_Type (Some e) = Returns (Type e)"

text \<open>
  The second half of \<open>Authenticate\<close>, from the write of the password on.
\<close>

definition Authenticate_reply :: "Connection \<Rightarrow> Connection \<times> error option go" where
  "Authenticate_reply con =
     (case Write con (''auth '' @ Password con @ [LF, LF]) of
        (con1, Some err) \<Rightarrow>
          (con1\<lparr>socket_closed := True\<rparr>, Returns (Some (Wrapf ''passwd buffer flush: '' err)))
      | (con1, None) \<Rightarrow>
          (case NewEventFromReader (buffer con1) of
             Panics p \<Rightarrow> (con1, Panics p)
           | Returns ((ev, err), r) \<Rightarrow>
               let con2 = con1\<lparr>buffer := r\<rparr>
               in case err of
                    Some e \<Rightarrow>
                      (con2\<lparr>socket_closed := True\<rparr>, Returns (Some (Wrapf ''auth reply: '' e)))
                  | None \<Rightarrow>
                      (case Event_Type ev of
                         Panics p \<Rightarrow> (con2, Panics p)
                       | Returns t \<Rightarrow>
                           if t \<noteq> EventCommandReply
                           then (con2\<lparr>socket_closed := True\<rparr>,
                                 Returns (Some (Errorf ''bad reply type'')))
                           else (con2\<lparr>Connected := True\<rparr>, Returns None))))"

text \<open>
  \<open>Authenticate\<close>. The condition \<open>err != nil || ev.Type != EventAuth\<close> reads \<open>ev.Type\<close>
  only when \<open>err\<close> is nil; the branch it guards closes the socket and then reads
  \<open>ev.Type\<close> whatever \<open>err\<close> is.
\<close>

definition Authenticate :: "Connection \<Rightarrow> Connection \<times> error option go" where
  "Authenticate con =
     (case NewEventFromReader (buffer con) of
        Panics p \<Rightarrow> (con, Panics p)
      | Returns ((ev, err), r) \<Rightarrow>
          let con1 = con\<lparr>buffer := r\<rparr>
          in case (if err \<noteq> None then Returns True
                   else case Event_Type ev of
                          Panics p \<Rightarrow> Panics p
                        | Returns t \<Rightarrow> Returns (t \<noteq> EventAuth)) of
               Panics p \<Rightarrow> (con1, Panics p)
             | Returns True \<Rightarrow>
                 let con2 = con1\<lparr>socket_closed := True\<rparr>
                 in (case Event_Type ev of
                       Panics p \<Rightarrow> (con2, Panics p)
                     | Returns t \<Rightarrow>
                         if t \<noteq> EventAuth
                         then (con2, Returns (Some (Errorf ''bad auth preamble'')))
                         else (con2, Returns (Some (Wrapf ''socket read error: '' (the err)))))
             | Returns False \<Rightarrow> Authenticate_reply con1)"

text \<open>
  One turn of the loop of \<open>HandleEvents\<close>, entered with the connection connected. Other
  tasks (the handler calls started with \<open>go\<close>, a caller of \<open>Close\<close>) run while the
  loop waits in the decoder: \<open>others\<close> is what they do to the connection in that time,
  and the identity when nothing else runs. A send on a channel hands the event to a
  receiver; without a receiver it waits for ever, and so does the loop.
\<close>

datatype turn = Continue Connection | Exit Connection "error option go" | Blocked

definition HandleEvents_turn ::
  "ConnectionHandler \<Rightarrow> (Connection \<Rightarrow> Connection) \<Rightarrow> Connection \<Rightarrow> turn"
where
  "HandleEvents_turn H others con =
     (case NewEventFromReader (buffer con) of
        Panics p \<Rightarrow> Exit con (Panics p)
      | Returns ((ev, err), r) \<Rightarrow>
          let con1 = others (con\<lparr>buffer := r\<rparr>)
          in case err of
               Some e \<Rightarrow>
                 if e = EOF \<or> \<not> Connected con1 then Exit con1 (Returns None)
                 else Exit (Close H con1) (Returns (Some (Wrapf ''event read loop: '' e)))
             | None \<Rightarrow>
                 (case Event_Type ev of
                    Panics p \<Rightarrow> Exit con1 (Panics p)
                  | Returns EventError \<Rightarrow> Exit con1 (Returns (Some (Errorf ''invalid event'')))
                  | Returns EventDisconnect \<Rightarrow>
                      Continue (OnDisconnect H
                                  (con1\<lparr>calls := calls con1 @ [CallOnDisconnect (the ev)]\<rparr>)
                                  (the ev))
                  | Returns EventCommandReply \<Rightarrow>
                      if cmdReply_receivers con1 = 0 then Blocked
                      else Continue (con1\<lparr>cmdReply_receivers := cmdReply_receivers con1 - 1,
                                          cmdReply_received := cmdReply_received con1 @ [the ev]\<rparr>)
                  | Returns EventApiResponse \<Rightarrow>
                      if apiResp_receivers con1 = 0 then Blocked
                      else Continue (con1\<lparr>apiResp_receivers := apiResp_receivers con1 - 1,
                                          apiResp_received := apiResp_received con1 @ [the ev]\<rparr>)
                  | Returns EventGeneric \<Rightarrow>
                      Continue (con1\<lparr>calls := calls con1 @ [GoOnEvent (the ev)]\<rparr>)
                  | Returns _ \<Rightarrow> Continue con1))"

text \<open>
  \<open>HandleEvents\<close>: the connection as the loop leaves it and what the call returns.
  \<open>None\<close> is a call that never returns: a loop that never ends, or one that waits for
  ever in a send.
\<close>

partial_function (option) HandleEvents ::
  "ConnectionHandler \<Rightarrow> (Connection \<Rightarrow> Connection) \<Rightarrow> Connection
     \<Rightarrow> (Connection \<times> error option go) option"
where
  "HandleEvents H others con =
     (if Connected con then
        (case HandleEvents_turn H others con of
           Exit con' res \<Rightarrow> Some (con', res)
         | Continue con' \<Rightarrow> HandleEvents H others con'
         | Blocked \<Rightarrow> None)
      else Some (con, Returns (Some (Errorf ''disconnected''))))"

declare HandleEvents.simps [code]

section \<open>Properties of the library functions\<close>

lemma HasPrefix_prefix: "HasPrefix s p \<longleftrightarrow> prefix p s"
  by (auto simp: HasPrefix_def prefix_def min_def) (metis append_eq_conv_conj)

lemma Contains_sublist: "Contains s sub \<longleftrightarrow> sublist sub s"
  by (induction s) (auto simp: HasPrefix_prefix sublist_Cons_right)

lemma Contains_char: "Contains s [c] \<longleftrightarrow> c \<in> set s"
  by (induction s) (auto simp: HasPrefix_def)

lemma Atoi_empty: "Atoi [] = (0, Some (NumError ''Atoi'' [] ErrSyntax))"
  by (simp add: Atoi_def)

lemma slice_last:
  assumes "0 < n" and "n \<le> int (length b)"
  shows "slice b (int (length b) - n) (int (length b) - 1)
         = Returns (butlast (drop (length b - nat n) b))"
proof -
  have "nat (int (length b) - n) = length b - nat n"
    using assms by simp
  moreover have "nat (int (length b) - 1 - (int (length b) - n)) = nat n - 1"
    using assms by simp
  moreover have "take (nat n - 1) (drop (length b - nat n) b)
                 = butlast (drop (length b - nat n) b)"
    using assms by (simp add: butlast_conv_take)
  ultimately show ?thesis
    using assms by (simp add: slice_def)
qed

lemma slice_panics:
  assumes "\<not> (0 < n \<and> n \<le> int (length b))"
  shows "slice b (int (length b) - n) (int (length b) - 1) = Panics SliceBoundsOutOfRange"
  using assms by (auto simp: slice_def)

section \<open>Properties of the decoder\<close>


lemma read_event:
  assumes "NewEventFromReader_read r = Returns (Inr e, r')"
  shows "e = Event_zero\<lparr>Header := \<lparr>Map = Map (Header e), IsEscaped = False\<rparr>, RawBody := RawBody e\<rparr>"
  using assms
  by (auto simp: NewEventFromReader_read_def Let_def Event_zero_def
           split: prod.splits option.splits if_splits)

lemma read_Type:
  assumes "NewEventFromReader_read r = Returns (Inr e, r')"
  shows "Type e = EventError"
proof -
  have "Type e = Type (Event_zero\<lparr>Header := \<lparr>Map = Map (Header e), IsEscaped = False\<rparr>,
                                   RawBody := RawBody e\<rparr>)"
    using read_event [OF assms] by (rule arg_cong)
  then show ?thesis
    by (simp add: Event_zero_def)
qed

lemma read_Header:
  assumes "NewEventFromReader_read r = Returns (Inr e, r')"
  shows "Header e = \<lparr>Map = Map (Header e), IsEscaped = False\<rparr>"
proof -
  have "Header e = Header (Event_zero\<lparr>Header := \<lparr>Map = Map (Header e), IsEscaped = False\<rparr>,
                                   RawBody := RawBody e\<rparr>)"
    using read_event [OF assms] by (rule arg_cong)
  then show ?thesis
    by simp
qed

lemma read_Body:
  assumes "NewEventFromReader_read r = Returns (Inr e, r')"
  shows "Body e = \<lparr>Map = Map.empty, IsEscaped = False\<rparr>"
proof -
  have "Body e = Body (Event_zero\<lparr>Header := \<lparr>Map = Map (Header e), IsEscaped = False\<rparr>,
                                   RawBody := RawBody e\<rparr>)"
    using read_event [OF assms] by (rule arg_cong)
  then show ?thesis
    by (simp add: Event_zero_def)
qed

lemma MIMEHeader_Get_empty: "MIMEHeader_Get Map.empty k = []"
  by (simp add: MIMEHeader_Get_def)

text \<open>In the event that enters the switch, a lookup reads the outer header as it is.\<close>

lemma read_Get:
  assumes "NewEventFromReader_read r = Returns (Inr e, r')"
  shows "Event_Get e k = MIMEHeader_Get (Map (Header e)) k"
proof -
  have h: "\<not> IsEscaped (Header e)"
    using read_Header [OF assms] by (metis MIMEMap.select_convs(2))
  have b: "MIMEMap_Get (Body e) k = []"
    using read_Body [OF assms] by (simp add: MIMEMap_Get_def MIMEHeader_Get_empty)
  show ?thesis
    using h b by (simp add: Event_Get_def MIMEMap_Get_def Let_def)
qed

lemma Event_Get_Type [simp]: "Event_Get (e\<lparr>Type := t\<rparr>) k = Event_Get e k"
  by (simp add: Event_Get_def Let_def)

lemma NewEventFromReader_decoded:
  assumes "NewEventFromReader_read r = Returns (Inr e, r')"
  shows "NewEventFromReader r = Returns (NewEventFromReader_switch e, r')"
  using assms by (simp add: NewEventFromReader_def)

lemma parseTextBody_keeps:
  "Type (fst (parseTextBody e)) = Type e" "RawBody (fst (parseTextBody e)) = RawBody e"
  "Header (fst (parseTextBody e)) = Header e"
  by (simp_all add: parseTextBody_def Let_def split: prod.splits option.splits)

lemma switch_RawBody:
  assumes "NewEventFromReader_switch e = (Some e', err)"
  shows "RawBody e' = RawBody e"
  using assms
  by (auto simp: NewEventFromReader_switch_def Let_def parseTextBody_keeps split: if_splits)

lemma Atoi_parsed_nonempty: "Atoi s = (n, None) \<Longrightarrow> s \<noteq> []"
  by (auto simp: Atoi_def)



text \<open>
  The event with which a stream enters the \<open>switch\<close>, for the streams whose first frame
  is read without failure.
\<close>


definition entering :: "bytes \<Rightarrow> Event" where
  "entering r = projr (fst (result (NewEventFromReader_read r)))"

lemma entering_read:
  assumes "is_Returns (NewEventFromReader_read r)"
    and "\<not> isl (fst (result (NewEventFromReader_read r)))"
    and "snd (result (NewEventFromReader_read r)) = r'"
  shows "NewEventFromReader_read r = Returns (Inr (entering r), r')"
proof -
  obtain x where x: "NewEventFromReader_read r = Returns x"
    using assms(1) by (cases "NewEventFromReader_read r") auto
  obtain a b where ab: "x = (a, b)"
    by (cases x)
  from assms(2) x ab obtain e where e: "a = Inr e"
    by (cases a) auto
  show ?thesis
    using x ab e assms(3) by (simp add: entering_def)
qed


section \<open>Command replies\<close>

text \<open>
  Claim C1. For every frame that the decoder reads (header block and raw body) whose
  \<open>Content-Type\<close> is \<open>command/reply\<close>: if the value of the \<open>Reply-Text\<close> header contains
  neither \<open>+OK\<close> nor \<open>%2BOK\<close>, \<open>NewEventFromReader\<close> returns no event and a command error;
  if it contains one of them, it returns an event of type \<open>EventCommandReply\<close> and no
  error, and the header map of the event is flagged escaped exactly when the reply text
  contains a percent sign.
\<close>

theorem command_reply_marker:
  assumes read: "NewEventFromReader_read r = Returns (Inr e, r')"
    and ct: "MIMEHeader_Get (Map (Header e)) ''Content-Type'' = ''command/reply''"
    and reply: "reply = MIMEHeader_Get (Map (Header e)) ''Reply-Text''"
  shows "(\<not> Contains reply ''+OK'' \<and> \<not> Contains reply ''%2BOK'' \<longrightarrow>
            NewEventFromReader r
            = Returns ((None, Some (Errorf (''command error: '' @ TrimSpace reply))), r'))
       \<and> (Contains reply ''+OK'' \<or> Contains reply ''%2BOK'' \<longrightarrow>
            (\<exists>e'. NewEventFromReader r = Returns ((Some e', None), r')
                  \<and> Type e' = EventCommandReply
                  \<and> Map (Header e') = Map (Header e)
                  \<and> IsEscaped (Header e') = (CHR ''%'' \<in> set reply)))"
proof -
  have g1: "Event_Get e ''Content-Type'' = ''command/reply''"
    using read_Get [OF read] ct by simp
  have g2: "Event_Get e ''Reply-Text'' = reply"
    using read_Get [OF read] reply by simp
  have esc: "\<not> IsEscaped (Header e)"
    using read_Header [OF read] by (metis MIMEMap.select_convs(2))
  have pc: "Contains reply ''%'' \<longleftrightarrow> CHR ''%'' \<in> set reply"
    by (rule Contains_char)
  have sw: "NewEventFromReader_switch e =
     (if \<not> Contains reply ''+OK'' \<and> \<not> Contains reply ''%2BOK''
      then (None, Some (Errorf (''command error: '' @ TrimSpace reply)))
      else if Contains reply ''%''
      then (Some (e\<lparr>Type := EventCommandReply, Header := (Header e)\<lparr>IsEscaped := True\<rparr>\<rparr>), None)
      else (Some (e\<lparr>Type := EventCommandReply\<rparr>), None))"
    using g1 g2 by (simp add: NewEventFromReader_switch_def Let_def)
  show ?thesis
    unfolding NewEventFromReader_decoded [OF read] sw
    using esc pc by auto
qed



text \<open>A reply whose text is percent-encoded.\<close>

definition reply_frame :: bytes where
  "reply_frame = ''Content-Type: command/reply\<newline>Reply-Text: %2BOK accepted\<newline>\<newline>''"
theorem command_reply_marker_witness:
  "NewEventFromReader_read reply_frame = Returns (Inr (entering reply_frame), [])
   \<and> MIMEHeader_Get (Map (Header (entering reply_frame))) ''Content-Type'' = ''command/reply''
   \<and> MIMEHeader_Get (Map (Header (entering reply_frame))) ''Reply-Text'' = ''%2BOK accepted''
   \<and> Contains ''%2BOK accepted'' ''%2BOK''
   \<and> (\<exists>e'. NewEventFromReader reply_frame = Returns ((Some e', None), [])
           \<and> Type e' = EventCommandReply \<and> IsEscaped (Header e'))"
proof -
  have a: "is_Returns (NewEventFromReader_read reply_frame)"
    by code_simp
  have b: "\<not> isl (fst (result (NewEventFromReader_read reply_frame)))"
    by code_simp
  have c: "snd (result (NewEventFromReader_read reply_frame)) = []"
    by code_simp
  have rd: "NewEventFromReader_read reply_frame = Returns (Inr (entering reply_frame), [])"
    by (rule entering_read [OF a b c])
  have ct: "MIMEHeader_Get (Map (Header (entering reply_frame))) ''Content-Type'' = ''command/reply''"
    by code_simp
  have rp: "MIMEHeader_Get (Map (Header (entering reply_frame))) ''Reply-Text'' = ''%2BOK accepted''"
    by code_simp
  have m: "Contains ''%2BOK accepted'' ''%2BOK''"
    by code_simp
  have p: "CHR ''%'' \<in> set ''%2BOK accepted''"
    by simp
  have "\<exists>e'. NewEventFromReader reply_frame = Returns ((Some e', None), [])
           \<and> Type e' = EventCommandReply \<and> IsEscaped (Header e')"
    using command_reply_marker [OF rd ct rp [symmetric]] m p by blast
  with rd ct rp m show ?thesis
    by blast
qed


section \<open>Classification by content type\<close>

lemma failure_collapse:
  assumes "is_Returns x" and "Option.is_none (fst (fst (result x)))"
    and "snd (fst (result x)) = err" and "snd (result x) = r"
  shows "x = Returns ((None, err), r)"
proof -
  obtain y where y: "x = Returns y"
    using assms(1) by (cases x) auto
  obtain a b c where abc: "y = ((a, b), c)"
    by (cases y) auto
  show ?thesis
    using assms(2-4) y abc by (simp add: Option.is_none_def)
qed

text \<open>
  Claim C3, as stated: the classification of a decoded frame is a function of the
  \<open>Content-Type\<close> value alone, and \<open>command/reply\<close> gives \<open>Command-Reply\<close>.
  It fails on the frame that consists of the header \<open>Content-Type: command/reply\<close>: the
  decoder returns a command error and no event.
\<close>

theorem classification_counterexample:
  "NewEventFromReader ''Content-Type: command/reply\<newline>\<newline>''
   = Returns ((None, Some (Errorf ''command error: '')), [])"
proof -
  have "is_Returns (NewEventFromReader ''Content-Type: command/reply\<newline>\<newline>'')"
    by code_simp
  moreover have "Option.is_none (fst (fst (result
                   (NewEventFromReader ''Content-Type: command/reply\<newline>\<newline>''))))"
    by code_simp
  moreover have "snd (fst (result (NewEventFromReader ''Content-Type: command/reply\<newline>\<newline>'')))
                 = Some (Errorf ''command error: '')"
    by code_simp
  moreover have "snd (result (NewEventFromReader ''Content-Type: command/reply\<newline>\<newline>'')) = []"
    by code_simp
  ultimately show ?thesis
    by (rule failure_collapse)
qed
text \<open>
  Claim C3, amended. For every frame that the decoder reads, the outcome is fixed by
  the \<open>Content-Type\<close> value as follows: \<open>auth/request\<close> gives an event of type
  \<open>EventAuth\<close>; \<open>command/reply\<close> gives an event of type \<open>EventCommandReply\<close> when the
  \<open>Reply-Text\<close> value contains \<open>+OK\<close> or \<open>%2BOK\<close>, and a failure without event
  otherwise; \<open>text/event-plain\<close> gives an event of type \<open>EventGeneric\<close> (which the parse
  of the nested body may accompany with an error); \<open>text/event-json\<close> and
  \<open>text/event-xml\<close> give the unsupported-format error, the type left at its zero value;
  \<open>text/disconnect-notice\<close> and \<open>text/rude-rejection\<close> give \<open>EventDisconnect\<close>;
  \<open>api/response\<close> gives \<open>EventApiResponse\<close>; every other value, the empty value of a
  missing header among them, gives the event with the zero type \<open>EventError\<close> and no
  error.
\<close>

theorem classification_by_content_type:
  assumes read: "NewEventFromReader_read r = Returns (Inr e, r')"
    and ct: "ct = MIMEHeader_Get (Map (Header e)) ''Content-Type''"
    and reply: "reply = MIMEHeader_Get (Map (Header e)) ''Reply-Text''"
  shows "(ct = ''auth/request'' \<longrightarrow>
            NewEventFromReader r = Returns ((Some (e\<lparr>Type := EventAuth\<rparr>), None), r'))
       \<and> (ct = ''command/reply'' \<longrightarrow>
            (if Contains reply ''+OK'' \<or> Contains reply ''%2BOK''
             then \<exists>e'. NewEventFromReader r = Returns ((Some e', None), r')
                       \<and> Type e' = EventCommandReply
             else \<exists>err. NewEventFromReader r = Returns ((None, Some err), r')))
       \<and> (ct = ''text/event-plain'' \<longrightarrow>
            (\<exists>e' err. NewEventFromReader r = Returns ((Some e', err), r')
                      \<and> Type e' = EventGeneric))
       \<and> (ct = ''text/event-json'' \<or> ct = ''text/event-xml'' \<longrightarrow>
            NewEventFromReader r
            = Returns ((Some e, Some (Errorf (''unsupported format '' @ ct))), r')
            \<and> Type e = EventError)
       \<and> (ct = ''text/disconnect-notice'' \<or> ct = ''text/rude-rejection'' \<longrightarrow>
            NewEventFromReader r = Returns ((Some (e\<lparr>Type := EventDisconnect\<rparr>), None), r'))
       \<and> (ct = ''api/response'' \<longrightarrow>
            NewEventFromReader r = Returns ((Some (e\<lparr>Type := EventApiResponse\<rparr>), None), r'))
       \<and> (ct \<notin> {''auth/request'', ''command/reply'', ''text/event-plain'', ''text/event-json'',
                  ''text/event-xml'', ''text/disconnect-notice'', ''text/rude-rejection'',
                  ''api/response''} \<longrightarrow>
            NewEventFromReader r = Returns ((Some e, None), r') \<and> Type e = EventError)"
proof -
  have g: "Event_Get e ''Content-Type'' = ct"
    using read_Get [OF read] ct by simp
  have g2: "Event_Get e ''Reply-Text'' = reply"
    using read_Get [OF read] reply by simp
  have t: "Type e = EventError"
    by (rule read_Type [OF read])
  have d: "NewEventFromReader r = Returns (NewEventFromReader_switch e, r')"
    by (rule NewEventFromReader_decoded [OF read])
  have c1: "ct = ''auth/request'' \<longrightarrow>
            NewEventFromReader r = Returns ((Some (e\<lparr>Type := EventAuth\<rparr>), None), r')"
    by (simp add: d NewEventFromReader_switch_def g)
  have c2: "ct = ''command/reply'' \<longrightarrow>
            (if Contains reply ''+OK'' \<or> Contains reply ''%2BOK''
             then \<exists>e'. NewEventFromReader r = Returns ((Some e', None), r')
                       \<and> Type e' = EventCommandReply
             else \<exists>err. NewEventFromReader r = Returns ((None, Some err), r'))"
    by (auto simp: d NewEventFromReader_switch_def g g2 Let_def)
  have c3: "ct = ''text/event-plain'' \<longrightarrow>
            (\<exists>e' err. NewEventFromReader r = Returns ((Some e', err), r')
                      \<and> Type e' = EventGeneric)"
    by (simp add: d NewEventFromReader_switch_def g parseTextBody_keeps)
  have c4: "ct = ''text/event-json'' \<or> ct = ''text/event-xml'' \<longrightarrow>
            NewEventFromReader r
            = Returns ((Some e, Some (Errorf (''unsupported format '' @ ct))), r')
            \<and> Type e = EventError"
    by (auto simp: d NewEventFromReader_switch_def g t)
  have c5: "ct = ''text/disconnect-notice'' \<or> ct = ''text/rude-rejection'' \<longrightarrow>
            NewEventFromReader r = Returns ((Some (e\<lparr>Type := EventDisconnect\<rparr>), None), r')"
    by (auto simp: d NewEventFromReader_switch_def g)
  have c6: "ct = ''api/response'' \<longrightarrow>
            NewEventFromReader r = Returns ((Some (e\<lparr>Type := EventApiResponse\<rparr>), None), r')"
    by (simp add: d NewEventFromReader_switch_def g)
  have c7: "ct \<notin> {''auth/request'', ''command/reply'', ''text/event-plain'', ''text/event-json'',
                  ''text/event-xml'', ''text/disconnect-notice'', ''text/rude-rejection'',
                  ''api/response''} \<longrightarrow>
            NewEventFromReader r = Returns ((Some e, None), r') \<and> Type e = EventError"
    by (simp add: d NewEventFromReader_switch_def g t)
  from c1 c2 c3 c4 c5 c6 c7 show ?thesis
    by blast
qed


definition auth_frame :: bytes where
  "auth_frame = ''Content-Type: auth/request\<newline>\<newline>''"

definition json_frame :: bytes where
  "json_frame = ''Content-Type: text/event-json\<newline>Content-Length: 2\<newline>\<newline>{}''"

theorem classification_by_content_type_witness:
  "NewEventFromReader_read auth_frame = Returns (Inr (entering auth_frame), [])
   \<and> MIMEHeader_Get (Map (Header (entering auth_frame))) ''Content-Type'' = ''auth/request''
   \<and> NewEventFromReader auth_frame
       = Returns ((Some ((entering auth_frame)\<lparr>Type := EventAuth\<rparr>), None), [])
   \<and> NewEventFromReader_read json_frame = Returns (Inr (entering json_frame), [])
   \<and> MIMEHeader_Get (Map (Header (entering json_frame))) ''Content-Type'' = ''text/event-json''
   \<and> NewEventFromReader json_frame
       = Returns ((Some (entering json_frame),
                   Some (Errorf ''unsupported format text/event-json'')), [])
   \<and> Type (entering json_frame) = EventError"
proof -
  have a: "is_Returns (NewEventFromReader_read auth_frame)"
    and b: "\<not> isl (fst (result (NewEventFromReader_read auth_frame)))"
    and c: "snd (result (NewEventFromReader_read auth_frame)) = []"
    by code_simp+
  have rd: "NewEventFromReader_read auth_frame = Returns (Inr (entering auth_frame), [])"
    by (rule entering_read [OF a b c])
  have ct: "MIMEHeader_Get (Map (Header (entering auth_frame))) ''Content-Type'' = ''auth/request''"
    by code_simp
  have a': "is_Returns (NewEventFromReader_read json_frame)"
    and b': "\<not> isl (fst (result (NewEventFromReader_read json_frame)))"
    and c': "snd (result (NewEventFromReader_read json_frame)) = []"
    by code_simp+
  have rd': "NewEventFromReader_read json_frame = Returns (Inr (entering json_frame), [])"
    by (rule entering_read [OF a' b' c'])
  have ct': "MIMEHeader_Get (Map (Header (entering json_frame))) ''Content-Type''
             = ''text/event-json''"
    by code_simp
  have r1: "NewEventFromReader auth_frame
            = Returns ((Some ((entering auth_frame)\<lparr>Type := EventAuth\<rparr>), None), [])"
    using classification_by_content_type [OF rd ct [symmetric] refl] by simp
  have r2: "NewEventFromReader json_frame
            = Returns ((Some (entering json_frame),
                   Some (Errorf (''unsupported format '' @ ''text/event-json''))), [])
            \<and> Type (entering json_frame) = EventError"
    using classification_by_content_type [OF rd' ct' [symmetric] refl] by simp
  from rd ct r1 rd' ct' r2 show ?thesis
    by (simp only: append.simps simp_thms)
qed

section \<open>The raw body\<close>

lemma header_collapse:
  assumes "fst (snd (ReadMIMEHeader b)) = None" and "snd (snd (ReadMIMEHeader b)) = r"
  shows "ReadMIMEHeader b = (fst (ReadMIMEHeader b), None, r)"
  using assms by (metis prod.collapse)

text \<open>
  Claim C6 holds that, for every \<open>Content-Length\<close> value that parses as an integer
  \<open>n\<close>, the decoder reads exactly \<open>n\<close> bytes as the raw body and leaves the stream
  at the byte after them, or returns a transport failure when fewer than \<open>n\<close> bytes
  follow. The code does so for \<open>0 \<le> n \<le> maxAlloc\<close>. For a negative \<open>n\<close> and
  for \<open>n\<close> above \<open>maxAlloc\<close>, which \<open>Atoi\<close> parses as well, \<open>make\<close> panics: the
  decoder returns neither an event nor an error, while it does return an error for a
  length that \<open>Atoi\<close> rejects. The theorem states both behaviours of the code.
\<close>

theorem body_read_exact:
  assumes hdr: "ReadMIMEHeader r = (hm, None, r1)"
    and len: "Atoi (MIMEHeader_Get hm ''Content-Length'') = (n, None)"
  shows "(n < 0 \<or> maxAlloc < n \<longrightarrow> NewEventFromReader r = Panics MakeSliceLenOutOfRange)
       \<and> (0 \<le> n \<and> n \<le> maxAlloc \<and> nat n \<le> length r1 \<longrightarrow>
            (\<exists>e. NewEventFromReader_read r = Returns (Inr e, drop (nat n) r1)
                 \<and> Map (Header e) = hm \<and> RawBody e = take (nat n) r1)
          \<and> (\<exists>res. NewEventFromReader r = Returns (res, drop (nat n) r1)
                 \<and> (\<forall>e'. fst res = Some e' \<longrightarrow> RawBody e' = take (nat n) r1)))
       \<and> (0 \<le> n \<and> n \<le> maxAlloc \<and> length r1 < nat n \<longrightarrow>
            (\<exists>err. NewEventFromReader r = Returns ((None, Some (Wrapf ''read body: '' err)), [])))"
proof -
  let ?e = "Event_zero\<lparr>Header := \<lparr>Map = hm, IsEscaped = False\<rparr>\<rparr>"
  have get: "Event_Get ?e ''Content-Length'' = MIMEHeader_Get hm ''Content-Length''"
    by (simp add: Event_Get_def MIMEMap_Get_def Let_def Event_zero_def MIMEHeader_Get_empty)
  have ne: "MIMEHeader_Get hm ''Content-Length'' \<noteq> []"
    using len by (rule Atoi_parsed_nonempty)
  have rd: "NewEventFromReader_read r =
      (if n < 0 \<or> maxAlloc < n then Panics MakeSliceLenOutOfRange
       else case ReadFull r1 (nat n) of
              (buf, Some err, r2) \<Rightarrow> Returns (Inl (Wrapf ''read body: '' err), r2)
            | (buf, None, r2) \<Rightarrow> Returns (Inr (?e\<lparr>RawBody := buf\<rparr>), r2))"
    using hdr len ne get by (simp add: NewEventFromReader_read_def Let_def)
  show ?thesis
  proof (intro conjI impI)
    assume "n < 0 \<or> maxAlloc < n"
    then show "NewEventFromReader r = Panics MakeSliceLenOutOfRange"
      by (simp add: NewEventFromReader_def rd)
  next
    assume a: "0 \<le> n \<and> n \<le> maxAlloc \<and> nat n \<le> length r1"
    then have ok: "NewEventFromReader_read r
                   = Returns (Inr (?e\<lparr>RawBody := take (nat n) r1\<rparr>), drop (nat n) r1)"
      by (simp add: rd ReadFull_def)
    then show "\<exists>e. NewEventFromReader_read r = Returns (Inr e, drop (nat n) r1)
                 \<and> Map (Header e) = hm \<and> RawBody e = take (nat n) r1"
      by simp
  next
    assume a: "0 \<le> n \<and> n \<le> maxAlloc \<and> nat n \<le> length r1"
    then have ok: "NewEventFromReader_read r
                   = Returns (Inr (?e\<lparr>RawBody := take (nat n) r1\<rparr>), drop (nat n) r1)"
      by (simp add: rd ReadFull_def)
    have res: "NewEventFromReader r
               = Returns (NewEventFromReader_switch (?e\<lparr>RawBody := take (nat n) r1\<rparr>),
                          drop (nat n) r1)"
      by (rule NewEventFromReader_decoded [OF ok])
    have "\<forall>e'. fst (NewEventFromReader_switch (?e\<lparr>RawBody := take (nat n) r1\<rparr>)) = Some e'
              \<longrightarrow> RawBody e' = take (nat n) r1"
    proof (intro allI impI)
      fix e'
      assume "fst (NewEventFromReader_switch (?e\<lparr>RawBody := take (nat n) r1\<rparr>)) = Some e'"
      then have "NewEventFromReader_switch (?e\<lparr>RawBody := take (nat n) r1\<rparr>)
                 = (Some e', snd (NewEventFromReader_switch (?e\<lparr>RawBody := take (nat n) r1\<rparr>)))"
        by (cases "NewEventFromReader_switch (?e\<lparr>RawBody := take (nat n) r1\<rparr>)") simp
      from switch_RawBody [OF this] show "RawBody e' = take (nat n) r1"
        by simp
    qed
    with res show "\<exists>res. NewEventFromReader r = Returns (res, drop (nat n) r1)
                 \<and> (\<forall>e'. fst res = Some e' \<longrightarrow> RawBody e' = take (nat n) r1)"
      by blast
  next
    assume "0 \<le> n \<and> n \<le> maxAlloc \<and> length r1 < nat n"
    then show "\<exists>err. NewEventFromReader r = Returns ((None, Some (Wrapf ''read body: '' err)), [])"
      by (simp add: NewEventFromReader_def rd ReadFull_def)
  qed
qed

text \<open>
  Two lengths on which the code panics, a body that the stream holds, and a body that the
  stream cuts short.
\<close>

definition body_frame :: bytes where
  "body_frame = ''Content-Type: api/response\<newline>Content-Length: 3\<newline>\<newline>+OKnext''"

definition short_frame :: bytes where
  "short_frame = ''Content-Type: api/response\<newline>Content-Length: 7\<newline>\<newline>+OK''"

definition negative_frame :: bytes where
  "negative_frame = ''Content-Length: -1\<newline>\<newline>''"

definition huge_frame :: bytes where
  "huge_frame = ''Content-Length: 9223372036854775807\<newline>\<newline>''"

theorem body_read_exact_witness:
  "ReadMIMEHeader negative_frame = (fst (ReadMIMEHeader negative_frame), None, [])
   \<and> Atoi (MIMEHeader_Get (fst (ReadMIMEHeader negative_frame)) ''Content-Length'') = (- 1, None)
   \<and> NewEventFromReader negative_frame = Panics MakeSliceLenOutOfRange
   \<and> ReadMIMEHeader huge_frame = (fst (ReadMIMEHeader huge_frame), None, [])
   \<and> Atoi (MIMEHeader_Get (fst (ReadMIMEHeader huge_frame)) ''Content-Length'')
       = (9223372036854775807, None)
   \<and> NewEventFromReader huge_frame = Panics MakeSliceLenOutOfRange
   \<and> ReadMIMEHeader body_frame = (fst (ReadMIMEHeader body_frame), None, ''+OKnext'')
   \<and> Atoi (MIMEHeader_Get (fst (ReadMIMEHeader body_frame)) ''Content-Length'') = (3, None)
   \<and> (\<exists>res. NewEventFromReader body_frame = Returns (res, ''next'')
             \<and> (\<forall>e'. fst res = Some e' \<longrightarrow> RawBody e' = ''+OK''))
   \<and> ReadMIMEHeader short_frame = (fst (ReadMIMEHeader short_frame), None, ''+OK'')
   \<and> Atoi (MIMEHeader_Get (fst (ReadMIMEHeader short_frame)) ''Content-Length'') = (7, None)
   \<and> (\<exists>err. NewEventFromReader short_frame
             = Returns ((None, Some (Wrapf ''read body: '' err)), []))"
proof -
  have "fst (snd (ReadMIMEHeader negative_frame)) = None"
    and "snd (snd (ReadMIMEHeader negative_frame)) = []"
    by code_simp+
  then have h1: "ReadMIMEHeader negative_frame = (fst (ReadMIMEHeader negative_frame), None, [])"
    by (rule header_collapse)
  have n1: "Atoi (MIMEHeader_Get (fst (ReadMIMEHeader negative_frame)) ''Content-Length'')
            = (- 1, None)"
    by code_simp
  have "fst (snd (ReadMIMEHeader huge_frame)) = None"
    and "snd (snd (ReadMIMEHeader huge_frame)) = []"
    by code_simp+
  then have h2: "ReadMIMEHeader huge_frame = (fst (ReadMIMEHeader huge_frame), None, [])"
    by (rule header_collapse)
  have n2: "Atoi (MIMEHeader_Get (fst (ReadMIMEHeader huge_frame)) ''Content-Length'')
            = (9223372036854775807, None)"
    by code_simp
  have "fst (snd (ReadMIMEHeader body_frame)) = None"
    and "snd (snd (ReadMIMEHeader body_frame)) = ''+OKnext''"
    by code_simp+
  then have h3: "ReadMIMEHeader body_frame = (fst (ReadMIMEHeader body_frame), None, ''+OKnext'')"
    by (rule header_collapse)
  have n3: "Atoi (MIMEHeader_Get (fst (ReadMIMEHeader body_frame)) ''Content-Length'') = (3, None)"
    by code_simp
  have "fst (snd (ReadMIMEHeader short_frame)) = None"
    and "snd (snd (ReadMIMEHeader short_frame)) = ''+OK''"
    by code_simp+
  then have h4: "ReadMIMEHeader short_frame = (fst (ReadMIMEHeader short_frame), None, ''+OK'')"
    by (rule header_collapse)
  have n4: "Atoi (MIMEHeader_Get (fst (ReadMIMEHeader short_frame)) ''Content-Length'') = (7, None)"
    by code_simp
  have r1: "NewEventFromReader negative_frame = Panics MakeSliceLenOutOfRange"
    using body_read_exact [OF h1 n1] by simp
  have r2: "NewEventFromReader huge_frame = Panics MakeSliceLenOutOfRange"
    using body_read_exact [OF h2 n2] by (simp add: maxAlloc_def)
  have r3: "\<exists>res. NewEventFromReader body_frame = Returns (res, ''next'')
             \<and> (\<forall>e'. fst res = Some e' \<longrightarrow> RawBody e' = ''+OK'')"
    using body_read_exact [OF h3 n3] by (simp add: maxAlloc_def)
  have r4: "\<exists>err. NewEventFromReader short_frame
             = Returns ((None, Some (Wrapf ''read body: '' err)), [])"
    using body_read_exact [OF h4 n4] by (simp add: maxAlloc_def)
  from h1 n1 r1 h2 n2 r2 h3 n3 r3 h4 n4 r4 show ?thesis
    by (intro conjI)
qed

section \<open>Notifications\<close>

lemma Event_Get_fields [simp]:
  "Event_Get (e\<lparr>UId := u\<rparr>) k = Event_Get e k"
  "Event_Get (e\<lparr>Name := n\<rparr>) k = Event_Get e k"
  "Event_Get (e\<lparr>App := a\<rparr>) k = Event_Get e k"
  "Event_Get (e\<lparr>AppData := d\<rparr>) k = Event_Get e k"
  by (simp_all add: Event_Get_def Let_def)

lemma parseTextBody_parsed:
  assumes "ReadMIMEHeader (RawBody e) = (bm, None, rest)"
  shows "parseTextBody e =
     (e\<lparr>Body := \<lparr>Map = bm, IsEscaped = True\<rparr>,
        UId := Event_Get (e\<lparr>Body := \<lparr>Map = bm, IsEscaped = True\<rparr>\<rparr>) ''Unique-ID'',
        Name := fst (EventNameString
                       (Event_Get (e\<lparr>Body := \<lparr>Map = bm, IsEscaped = True\<rparr>\<rparr>) ''Event-Name'')),
        App := Event_Get (e\<lparr>Body := \<lparr>Map = bm, IsEscaped = True\<rparr>\<rparr>) ''Application'',
        AppData := TrimSpace
                     (Event_Get (e\<lparr>Body := \<lparr>Map = bm, IsEscaped = True\<rparr>\<rparr>) ''Application-Data''),
        Stamp := fst (Atoi (Event_Get (e\<lparr>Body := \<lparr>Map = bm, IsEscaped = True\<rparr>\<rparr>)
                              ''Event-Date-Timestamp''))\<rparr>,
      snd (Atoi (Event_Get (e\<lparr>Body := \<lparr>Map = bm, IsEscaped = True\<rparr>\<rparr>) ''Event-Date-Timestamp'')))"
  using assms by (simp add: parseTextBody_def Let_def)

text \<open>
  After the nested header is parsed, a lookup reads the outer header first and the
  nested header, unescaped, when the outer header has no value.
\<close>

lemma nested_Get:
  assumes "\<not> IsEscaped (Header e)"
  shows "Event_Get (e\<lparr>Body := \<lparr>Map = bm, IsEscaped = True\<rparr>\<rparr>) k =
     (if MIMEHeader_Get (Map (Header e)) k = []
      then fst (QueryUnescape (MIMEHeader_Get bm k))
      else MIMEHeader_Get (Map (Header e)) k)"
  using assms by (simp add: Event_Get_def MIMEMap_Get_def Let_def)

lemma read_not_escaped:
  assumes "NewEventFromReader_read r = Returns (Inr e, r')"
  shows "\<not> IsEscaped (Header e)"
  using read_Header [OF assms] by (metis MIMEMap.select_convs(2))

lemma event_plain_decoded:
  assumes read: "NewEventFromReader_read r = Returns (Inr e, r')"
    and ct: "MIMEHeader_Get (Map (Header e)) ''Content-Type'' = ''text/event-plain''"
  shows "NewEventFromReader r
         = Returns ((Some (fst (parseTextBody (e\<lparr>Type := EventGeneric\<rparr>))),
                     snd (parseTextBody (e\<lparr>Type := EventGeneric\<rparr>))), r')"
proof -
  have "Event_Get e ''Content-Type'' = ''text/event-plain''"
    using read_Get [OF read] ct by simp
  then show ?thesis
    by (simp add: NewEventFromReader_decoded [OF read] NewEventFromReader_switch_def)
qed

lemma nested_collapse:
  assumes "fst (snd (ReadMIMEHeader b)) = None"
  shows "ReadMIMEHeader b = (fst (ReadMIMEHeader b), None, snd (snd (ReadMIMEHeader b)))"
  using assms by (metis prod.collapse)

text \<open>The decoding of a notification whose nested header block parses.\<close>

lemma event_plain_parsed:
  assumes read: "NewEventFromReader_read r = Returns (Inr e, r')"
    and ct: "MIMEHeader_Get (Map (Header e)) ''Content-Type'' = ''text/event-plain''"
    and nested: "ReadMIMEHeader (RawBody e) = (bm, None, rest)"
    and look: "e1 = e\<lparr>Type := EventGeneric, Body := \<lparr>Map = bm, IsEscaped = True\<rparr>\<rparr>"
  shows "NewEventFromReader r
         = Returns ((Some (e1\<lparr>UId := Event_Get e1 ''Unique-ID'',
                               Name := fst (EventNameString (Event_Get e1 ''Event-Name'')),
                               App := Event_Get e1 ''Application'',
                               AppData := TrimSpace (Event_Get e1 ''Application-Data''),
                               Stamp := fst (Atoi (Event_Get e1 ''Event-Date-Timestamp''))\<rparr>),
                     snd (Atoi (Event_Get e1 ''Event-Date-Timestamp''))), r')"
proof -
  have nested': "ReadMIMEHeader (RawBody (e\<lparr>Type := EventGeneric\<rparr>)) = (bm, None, rest)"
    using nested by simp
  show ?thesis
    unfolding event_plain_decoded [OF read ct] parseTextBody_parsed [OF nested'] look
    by simp
qed

lemma read_UId:
  assumes "NewEventFromReader_read r = Returns (Inr e, r')"
  shows "UId e = []"
proof -
  have "UId e = UId (Event_zero\<lparr>Header := \<lparr>Map = Map (Header e), IsEscaped = False\<rparr>,
                                 RawBody := RawBody e\<rparr>)"
    using read_event [OF assms] by (rule arg_cong)
  then show ?thesis
    by (simp add: Event_zero_def)
qed

lemma parseTextBody_failed:
  assumes "ReadMIMEHeader (RawBody e) = (bm, Some err, rest)"
  shows "parseTextBody e
         = (e\<lparr>Body := (Body e)\<lparr>Map := bm\<rparr>\<rparr>, Some (Wrapf ''parse text body: '' err))"
  using assms by (simp add: parseTextBody_def)

text \<open>
  Three frames whose nested body headers include \<open>Event-Name: CHANNEL_ANSWER\<close>,
  \<open>Unique-ID: abc-123\<close> and \<open>Event-Date-Timestamp: 1000\<close>: one whose outer header
  block has a \<open>Unique-ID\<close> of its own, one whose nested block has another \<open>Unique-ID\<close>
  before that one, and one whose nested block lacks the blank line that ends it.
\<close>

definition shadowed_frame :: bytes where
  "shadowed_frame = ''Content-Length: 74\<newline>Content-Type: text/event-plain\<newline>Unique-ID: other\<newline>\<newline>Event-Name: CHANNEL_ANSWER\<newline>Unique-ID: abc-123\<newline>Event-Date-Timestamp: 1000\<newline>\<newline>''"

definition shadowed_event :: Event where
  "shadowed_event = the (fst (fst (result (NewEventFromReader shadowed_frame))))"

definition repeated_frame :: bytes where
  "repeated_frame = ''Content-Length: 89\<newline>Content-Type: text/event-plain\<newline>\<newline>Event-Name: CHANNEL_ANSWER\<newline>Unique-ID: zzz\<newline>Unique-ID: abc-123\<newline>Event-Date-Timestamp: 1000\<newline>\<newline>''"

definition repeated_event :: Event where
  "repeated_event = the (fst (fst (result (NewEventFromReader repeated_frame))))"

definition open_frame :: bytes where
  "open_frame = ''Content-Length: 73\<newline>Content-Type: text/event-plain\<newline>\<newline>Event-Name: CHANNEL_ANSWER\<newline>Unique-ID: abc-123\<newline>Event-Date-Timestamp: 1000\<newline>''"

definition open_event :: Event where
  "open_event = the (fst (fst (result (NewEventFromReader open_frame))))"

lemma shadowed_decoded:
  "fst (result (NewEventFromReader shadowed_frame)) = (Some shadowed_event, None)
   \<and> Type shadowed_event = EventGeneric
   \<and> MIMEHeader_Get (Map (Header shadowed_event)) ''Content-Type'' = ''text/event-plain''
   \<and> MIMEHeader_Get (Map (Body shadowed_event)) ''Event-Name'' = ''CHANNEL_ANSWER''
   \<and> MIMEHeader_Get (Map (Body shadowed_event)) ''Unique-ID'' = ''abc-123''
   \<and> MIMEHeader_Get (Map (Body shadowed_event)) ''Event-Date-Timestamp'' = ''1000''
   \<and> UId shadowed_event = ''other''"
proof -
  let ?e = "entering shadowed_frame"
  let ?bm = "fst (ReadMIMEHeader (RawBody ?e))"
  let ?e1 = "?e\<lparr>Type := EventGeneric, Body := \<lparr>Map = ?bm, IsEscaped = True\<rparr>\<rparr>"
  have a: "is_Returns (NewEventFromReader_read shadowed_frame)"
    and b: "\<not> isl (fst (result (NewEventFromReader_read shadowed_frame)))"
    and c: "snd (result (NewEventFromReader_read shadowed_frame)) = []"
    by code_simp+
  have rd: "NewEventFromReader_read shadowed_frame = Returns (Inr ?e, [])"
    by (rule entering_read [OF a b c])
  have ct: "MIMEHeader_Get (Map (Header ?e)) ''Content-Type'' = ''text/event-plain''"
    by code_simp
  have "fst (snd (ReadMIMEHeader (RawBody ?e))) = None"
    by code_simp
  then have nb: "ReadMIMEHeader (RawBody ?e) = (?bm, None, snd (snd (ReadMIMEHeader (RawBody ?e))))"
    by (rule nested_collapse)
  have n1: "MIMEHeader_Get ?bm ''Event-Name'' = ''CHANNEL_ANSWER''"
    and n2: "MIMEHeader_Get ?bm ''Unique-ID'' = ''abc-123''"
    and n3: "MIMEHeader_Get ?bm ''Event-Date-Timestamp'' = ''1000''"
    by code_simp+
  have u: "Event_Get ?e1 ''Unique-ID'' = ''other''"
    by code_simp
  have s: "snd (Atoi (Event_Get ?e1 ''Event-Date-Timestamp'')) = None"
    by code_simp
  note d = event_plain_parsed [OF rd ct nb refl]
  have ev: "shadowed_event =
      ?e1\<lparr>UId := Event_Get ?e1 ''Unique-ID'',
            Name := fst (EventNameString (Event_Get ?e1 ''Event-Name'')),
            App := Event_Get ?e1 ''Application'',
            AppData := TrimSpace (Event_Get ?e1 ''Application-Data''),
            Stamp := fst (Atoi (Event_Get ?e1 ''Event-Date-Timestamp''))\<rparr>"
    unfolding shadowed_event_def d by simp
  have r: "fst (result (NewEventFromReader shadowed_frame)) = (Some shadowed_event, None)"
    unfolding ev unfolding d s by simp
  have t: "Type shadowed_event = EventGeneric"
    unfolding ev by simp
  have h: "MIMEHeader_Get (Map (Header shadowed_event)) ''Content-Type'' = ''text/event-plain''"
    unfolding ev using ct by simp
  have m: "Map (Body shadowed_event) = ?bm"
    unfolding ev by simp
  have i: "UId shadowed_event = ''other''"
    unfolding ev using u by simp
  from r t h n1 n2 n3 i show ?thesis
    unfolding m by (intro conjI)
qed

lemma repeated_decoded:
  "fst (result (NewEventFromReader repeated_frame)) = (Some repeated_event, None)
   \<and> Map (Body repeated_event) ''Unique-Id'' = Some [''zzz'', ''abc-123'']
   \<and> UId repeated_event = ''zzz''"
proof -
  let ?e = "entering repeated_frame"
  let ?bm = "fst (ReadMIMEHeader (RawBody ?e))"
  let ?e1 = "?e\<lparr>Type := EventGeneric, Body := \<lparr>Map = ?bm, IsEscaped = True\<rparr>\<rparr>"
  have a: "is_Returns (NewEventFromReader_read repeated_frame)"
    and b: "\<not> isl (fst (result (NewEventFromReader_read repeated_frame)))"
    and c: "snd (result (NewEventFromReader_read repeated_frame)) = []"
    by code_simp+
  have rd: "NewEventFromReader_read repeated_frame = Returns (Inr ?e, [])"
    by (rule entering_read [OF a b c])
  have ct: "MIMEHeader_Get (Map (Header ?e)) ''Content-Type'' = ''text/event-plain''"
    by code_simp
  have "fst (snd (ReadMIMEHeader (RawBody ?e))) = None"
    by code_simp
  then have nb: "ReadMIMEHeader (RawBody ?e) = (?bm, None, snd (snd (ReadMIMEHeader (RawBody ?e))))"
    by (rule nested_collapse)
  have n: "?bm ''Unique-Id'' = Some [''zzz'', ''abc-123'']"
    by code_simp
  have u: "Event_Get ?e1 ''Unique-ID'' = ''zzz''"
    by code_simp
  have s: "snd (Atoi (Event_Get ?e1 ''Event-Date-Timestamp'')) = None"
    by code_simp
  note d = event_plain_parsed [OF rd ct nb refl]
  have ev: "repeated_event =
      ?e1\<lparr>UId := Event_Get ?e1 ''Unique-ID'',
            Name := fst (EventNameString (Event_Get ?e1 ''Event-Name'')),
            App := Event_Get ?e1 ''Application'',
            AppData := TrimSpace (Event_Get ?e1 ''Application-Data''),
            Stamp := fst (Atoi (Event_Get ?e1 ''Event-Date-Timestamp''))\<rparr>"
    unfolding repeated_event_def d by simp
  have r: "fst (result (NewEventFromReader repeated_frame)) = (Some repeated_event, None)"
    unfolding ev unfolding d s by simp
  have m: "Map (Body repeated_event) = ?bm"
    unfolding ev by simp
  have i: "UId repeated_event = ''zzz''"
    unfolding ev using u by simp
  from r n i show ?thesis
    unfolding m by (intro conjI)
qed

lemma open_decoded:
  "fst (result (NewEventFromReader open_frame))
   = (Some open_event, Some (Wrapf ''parse text body: '' EOF))
   \<and> Map (Body open_event) ''Unique-Id'' = Some [''abc-123'']
   \<and> UId open_event = []"
proof -
  let ?e = "entering open_frame"
  let ?bm = "fst (ReadMIMEHeader (RawBody ?e))"
  have a: "is_Returns (NewEventFromReader_read open_frame)"
    and b: "\<not> isl (fst (result (NewEventFromReader_read open_frame)))"
    and c: "snd (result (NewEventFromReader_read open_frame)) = []"
    by code_simp+
  have rd: "NewEventFromReader_read open_frame = Returns (Inr ?e, [])"
    by (rule entering_read [OF a b c])
  have ct: "MIMEHeader_Get (Map (Header ?e)) ''Content-Type'' = ''text/event-plain''"
    by code_simp
  have "fst (snd (ReadMIMEHeader (RawBody ?e))) = Some EOF"
    by code_simp
  then have nb: "ReadMIMEHeader (RawBody (?e\<lparr>Type := EventGeneric\<rparr>))
                 = (?bm, Some EOF, snd (snd (ReadMIMEHeader (RawBody ?e))))"
    by (simp add: prod_eq_iff)
  have n: "?bm ''Unique-Id'' = Some [''abc-123'']"
    by code_simp
  have z: "UId ?e = []"
    by (rule read_UId [OF rd])
  note d = event_plain_decoded [OF rd ct]
  have ev: "open_event = ?e\<lparr>Type := EventGeneric, Body := (Body ?e)\<lparr>Map := ?bm\<rparr>\<rparr>"
    unfolding open_event_def d parseTextBody_failed [OF nb] by simp
  have r: "fst (result (NewEventFromReader open_frame))
           = (Some open_event, Some (Wrapf ''parse text body: '' EOF))"
    unfolding ev unfolding d parseTextBody_failed [OF nb] by simp
  have m: "Map (Body open_event) = ?bm"
    unfolding ev by simp
  have i: "UId open_event = []"
    unfolding ev using z by simp
  from r n i show ?thesis
    unfolding m by (intro conjI)
qed


text \<open>
  Claim C7, as stated: every \<open>text/event-plain\<close> frame whose nested body headers
  include \<open>Event-Name: CHANNEL_ANSWER\<close>, \<open>Unique-ID: abc-123\<close> and
  \<open>Event-Date-Timestamp: 1000\<close> is decoded into an event with the call-leg id
  \<open>abc-123\<close>. It fails on the three frames above. \<open>Event.Get\<close> reads the outer header
  before the nested one, and the first value of a field: the call-leg id is \<open>other\<close> on
  the first frame and \<open>zzz\<close> on the second. On the third the parse of the nested block
  ends with \<open>io.EOF\<close>: the decoder returns an error and sets no call-leg id.
\<close>

theorem channel_answer_counterexample:
  "fst (result (NewEventFromReader shadowed_frame)) = (Some shadowed_event, None)
   \<and> Type shadowed_event = EventGeneric
   \<and> MIMEHeader_Get (Map (Header shadowed_event)) ''Content-Type'' = ''text/event-plain''
   \<and> MIMEHeader_Get (Map (Body shadowed_event)) ''Event-Name'' = ''CHANNEL_ANSWER''
   \<and> MIMEHeader_Get (Map (Body shadowed_event)) ''Unique-ID'' = ''abc-123''
   \<and> MIMEHeader_Get (Map (Body shadowed_event)) ''Event-Date-Timestamp'' = ''1000''
   \<and> UId shadowed_event = ''other''
   \<and> fst (result (NewEventFromReader repeated_frame)) = (Some repeated_event, None)
   \<and> Map (Body repeated_event) ''Unique-Id'' = Some [''zzz'', ''abc-123'']
   \<and> UId repeated_event = ''zzz''
   \<and> fst (result (NewEventFromReader open_frame))
       = (Some open_event, Some (Wrapf ''parse text body: '' EOF))
   \<and> Map (Body open_event) ''Unique-Id'' = Some [''abc-123'']
   \<and> UId open_event = []"
  using shadowed_decoded repeated_decoded open_decoded by (intro conjI) simp_all

text \<open>
  Claim C7, amended. A \<open>text/event-plain\<close> frame whose outer header block holds no
  \<open>Event-Name\<close>, \<open>Unique-ID\<close> or \<open>Event-Date-Timestamp\<close> of its own and whose raw body
  parses without error as a nested header block (which its blank line ends) where the
  first value of \<open>Event-Name\<close> is \<open>CHANNEL_ANSWER\<close>, the first value of \<open>Unique-ID\<close>
  is \<open>abc-123\<close> and the first value of \<open>Event-Date-Timestamp\<close> is \<open>1000\<close> is decoded,
  without error, into an event of type \<open>EventGeneric\<close> with the name tag
  \<open>CHANNEL_ANSWER\<close>, the call-leg id \<open>abc-123\<close> and the timestamp 1000, whose nested
  header map is the parsed block and is marked escaped.
\<close>

theorem channel_answer_decoded:
  assumes read: "NewEventFromReader_read r = Returns (Inr e, r')"
    and ct: "MIMEHeader_Get (Map (Header e)) ''Content-Type'' = ''text/event-plain''"
    and outer: "MIMEHeader_Get (Map (Header e)) ''Event-Name'' = []"
               "MIMEHeader_Get (Map (Header e)) ''Unique-ID'' = []"
               "MIMEHeader_Get (Map (Header e)) ''Event-Date-Timestamp'' = []"
    and nested: "ReadMIMEHeader (RawBody e) = (bm, None, rest)"
    and name: "MIMEHeader_Get bm ''Event-Name'' = ''CHANNEL_ANSWER''"
    and uid: "MIMEHeader_Get bm ''Unique-ID'' = ''abc-123''"
    and stamp: "MIMEHeader_Get bm ''Event-Date-Timestamp'' = ''1000''"
  shows "\<exists>e'. NewEventFromReader r = Returns ((Some e', None), r')
              \<and> Type e' = EventGeneric \<and> Name e' = CHANNEL_ANSWER \<and> UId e' = ''abc-123''
              \<and> Stamp e' = 1000 \<and> Map (Body e') = bm \<and> IsEscaped (Body e')"
proof -
  let ?g = "e\<lparr>Type := EventGeneric\<rparr>"
  have esc: "\<not> IsEscaped (Header ?g)"
    using read_not_escaped [OF read] by simp
  have q1: "fst (QueryUnescape ''CHANNEL_ANSWER'') = ''CHANNEL_ANSWER''"
    by code_simp
  have q2: "fst (QueryUnescape ''abc-123'') = ''abc-123''"
    by code_simp
  have q3: "fst (QueryUnescape ''1000'') = ''1000''"
    by code_simp
  have n: "EventNameString ''CHANNEL_ANSWER'' = (CHANNEL_ANSWER, None)"
    by code_simp
  have a: "Atoi ''1000'' = (1000, None)"
    by code_simp
  have g1: "Event_Get (?g\<lparr>Body := \<lparr>Map = bm, IsEscaped = True\<rparr>\<rparr>) ''Event-Name'' = ''CHANNEL_ANSWER''"
    using outer(1) name q1 by (simp add: nested_Get [OF esc])
  have g2: "Event_Get (?g\<lparr>Body := \<lparr>Map = bm, IsEscaped = True\<rparr>\<rparr>) ''Unique-ID'' = ''abc-123''"
    using outer(2) uid q2 by (simp add: nested_Get [OF esc])
  have g3: "Event_Get (?g\<lparr>Body := \<lparr>Map = bm, IsEscaped = True\<rparr>\<rparr>) ''Event-Date-Timestamp'' = ''1000''"
    using outer(3) stamp q3 by (simp add: nested_Get [OF esc])
  have nested': "ReadMIMEHeader (RawBody ?g) = (bm, None, rest)"
    using nested by simp
  show ?thesis
    unfolding event_plain_decoded [OF read ct] parseTextBody_parsed [OF nested'] g1 g2 g3 n a
    by simp
qed

text \<open>The frame of the claim, with the length of its body and its content type outside.\<close>

definition answer_frame :: bytes where
  "answer_frame = ''Content-Length: 74\<newline>Content-Type: text/event-plain\<newline>\<newline>Event-Name: CHANNEL_ANSWER\<newline>Unique-ID: abc-123\<newline>Event-Date-Timestamp: 1000\<newline>\<newline>''"

definition answer_body :: MIMEHeader where
  "answer_body = fst (ReadMIMEHeader (RawBody (entering answer_frame)))"

theorem channel_answer_decoded_witness:
  "NewEventFromReader_read answer_frame = Returns (Inr (entering answer_frame), [])
   \<and> MIMEHeader_Get (Map (Header (entering answer_frame))) ''Content-Type'' = ''text/event-plain''
   \<and> MIMEHeader_Get answer_body ''Event-Name'' = ''CHANNEL_ANSWER''
   \<and> MIMEHeader_Get answer_body ''Unique-ID'' = ''abc-123''
   \<and> MIMEHeader_Get answer_body ''Event-Date-Timestamp'' = ''1000''
   \<and> (\<exists>e'. NewEventFromReader answer_frame = Returns ((Some e', None), [])
           \<and> Type e' = EventGeneric \<and> Name e' = CHANNEL_ANSWER \<and> UId e' = ''abc-123''
           \<and> Stamp e' = 1000 \<and> IsEscaped (Body e'))"
proof -
  have a: "is_Returns (NewEventFromReader_read answer_frame)"
    and b: "\<not> isl (fst (result (NewEventFromReader_read answer_frame)))"
    and c: "snd (result (NewEventFromReader_read answer_frame)) = []"
    by code_simp+
  have rd: "NewEventFromReader_read answer_frame = Returns (Inr (entering answer_frame), [])"
    by (rule entering_read [OF a b c])
  have ct: "MIMEHeader_Get (Map (Header (entering answer_frame))) ''Content-Type''
            = ''text/event-plain''"
    by code_simp
  have o1: "MIMEHeader_Get (Map (Header (entering answer_frame))) ''Event-Name'' = []"
    and o2: "MIMEHeader_Get (Map (Header (entering answer_frame))) ''Unique-ID'' = []"
    and o3: "MIMEHeader_Get (Map (Header (entering answer_frame))) ''Event-Date-Timestamp'' = []"
    by code_simp+
  have "fst (snd (ReadMIMEHeader (RawBody (entering answer_frame)))) = None"
    by code_simp
  then have nb: "ReadMIMEHeader (RawBody (entering answer_frame))
                 = (answer_body, None, snd (snd (ReadMIMEHeader (RawBody (entering answer_frame)))))"
    unfolding answer_body_def by (rule nested_collapse)
  have n1: "MIMEHeader_Get answer_body ''Event-Name'' = ''CHANNEL_ANSWER''"
    and n2: "MIMEHeader_Get answer_body ''Unique-ID'' = ''abc-123''"
    and n3: "MIMEHeader_Get answer_body ''Event-Date-Timestamp'' = ''1000''"
    by code_simp+
  have "\<exists>e'. NewEventFromReader answer_frame = Returns ((Some e', None), [])
           \<and> Type e' = EventGeneric \<and> Name e' = CHANNEL_ANSWER \<and> UId e' = ''abc-123''
           \<and> Stamp e' = 1000 \<and> IsEscaped (Body e')"
    using channel_answer_decoded [OF rd ct o1 o2 o3 nb n1 n2 n3] by blast
  with rd ct n1 n2 n3 show ?thesis
    by (intro conjI)
qed

text \<open>
  Claim C9. For every \<open>text/event-plain\<close> frame whose nested header block parses, if
  the \<open>Event-Date-Timestamp\<close> is absent (from the outer and the nested header) or the
  value that the lookup returns is rejected by \<open>Atoi\<close>, then \<open>NewEventFromReader\<close>
  returns the error of \<open>Atoi\<close>, together with the event in which the call-leg id, the
  name tag, the application name and the application argument are populated.
\<close>

theorem timestamp_failure:
  assumes read: "NewEventFromReader_read r = Returns (Inr e, r')"
    and ct: "MIMEHeader_Get (Map (Header e)) ''Content-Type'' = ''text/event-plain''"
    and nested: "ReadMIMEHeader (RawBody e) = (bm, None, rest)"
    and look: "e1 = e\<lparr>Type := EventGeneric, Body := \<lparr>Map = bm, IsEscaped = True\<rparr>\<rparr>"
    and bad: "(MIMEHeader_Get (Map (Header e)) ''Event-Date-Timestamp'' = []
               \<and> MIMEHeader_Get bm ''Event-Date-Timestamp'' = [])
              \<or> snd (Atoi (Event_Get e1 ''Event-Date-Timestamp'')) \<noteq> None"
  shows "\<exists>e' err. NewEventFromReader r = Returns ((Some e', Some err), r')
              \<and> snd (Atoi (Event_Get e1 ''Event-Date-Timestamp'')) = Some err
              \<and> Type e' = EventGeneric
              \<and> UId e' = Event_Get e1 ''Unique-ID''
              \<and> Name e' = fst (EventNameString (Event_Get e1 ''Event-Name''))
              \<and> App e' = Event_Get e1 ''Application''
              \<and> AppData e' = TrimSpace (Event_Get e1 ''Application-Data'')"
proof -
  let ?g = "e\<lparr>Type := EventGeneric\<rparr>"
  have e1: "e1 = ?g\<lparr>Body := \<lparr>Map = bm, IsEscaped = True\<rparr>\<rparr>"
    using look by simp
  have esc: "\<not> IsEscaped (Header ?g)"
    using read_not_escaped [OF read] by simp
  have q: "fst (QueryUnescape []) = []"
    by (simp add: QueryUnescape_def)
  have "snd (Atoi (Event_Get e1 ''Event-Date-Timestamp'')) \<noteq> None"
    using bad
  proof
    assume "MIMEHeader_Get (Map (Header e)) ''Event-Date-Timestamp'' = []
            \<and> MIMEHeader_Get bm ''Event-Date-Timestamp'' = []"
    then have "Event_Get e1 ''Event-Date-Timestamp'' = []"
      by (simp add: e1 nested_Get [OF esc] q)
    then show ?thesis
      by (simp add: Atoi_empty)
  qed
  then obtain err where err: "snd (Atoi (Event_Get e1 ''Event-Date-Timestamp'')) = Some err"
    by auto
  have t: "Type e1 = EventGeneric"
    using look by simp
  have nested': "ReadMIMEHeader (RawBody ?g) = (bm, None, rest)"
    using nested by simp
  show ?thesis
    unfolding event_plain_decoded [OF read ct] parseTextBody_parsed [OF nested'] e1 [symmetric]
    using err t by simp
qed


text \<open>A notification without timestamp.\<close>

definition unstamped_frame :: bytes where
  "unstamped_frame = ''Content-Length: 47\<newline>Content-Type: text/event-plain\<newline>\<newline>Event-Name: CHANNEL_ANSWER\<newline>Unique-ID: abc-123\<newline>\<newline>''"

definition unstamped_body :: MIMEHeader where
  "unstamped_body = fst (ReadMIMEHeader (RawBody (entering unstamped_frame)))"

theorem timestamp_failure_witness:
  "NewEventFromReader_read unstamped_frame = Returns (Inr (entering unstamped_frame), [])
   \<and> MIMEHeader_Get (Map (Header (entering unstamped_frame))) ''Content-Type'' = ''text/event-plain''
   \<and> MIMEHeader_Get (Map (Header (entering unstamped_frame))) ''Event-Date-Timestamp'' = []
   \<and> MIMEHeader_Get unstamped_body ''Event-Date-Timestamp'' = []
   \<and> (\<exists>e'. NewEventFromReader unstamped_frame
             = Returns ((Some e', Some (NumError ''Atoi'' [] ErrSyntax)), [])
           \<and> Type e' = EventGeneric \<and> UId e' = ''abc-123'' \<and> Name e' = CHANNEL_ANSWER)"
proof -
  let ?e1 = "(entering unstamped_frame)\<lparr>Type := EventGeneric,
               Body := \<lparr>Map = unstamped_body, IsEscaped = True\<rparr>\<rparr>"
  have a: "is_Returns (NewEventFromReader_read unstamped_frame)"
    and b: "\<not> isl (fst (result (NewEventFromReader_read unstamped_frame)))"
    and c: "snd (result (NewEventFromReader_read unstamped_frame)) = []"
    by code_simp+
  have rd: "NewEventFromReader_read unstamped_frame = Returns (Inr (entering unstamped_frame), [])"
    by (rule entering_read [OF a b c])
  have ct: "MIMEHeader_Get (Map (Header (entering unstamped_frame))) ''Content-Type''
            = ''text/event-plain''"
    by code_simp
  have o: "MIMEHeader_Get (Map (Header (entering unstamped_frame))) ''Event-Date-Timestamp'' = []"
    by code_simp
  have "fst (snd (ReadMIMEHeader (RawBody (entering unstamped_frame)))) = None"
    by code_simp
  then have nb: "ReadMIMEHeader (RawBody (entering unstamped_frame))
                 = (unstamped_body, None,
                    snd (snd (ReadMIMEHeader (RawBody (entering unstamped_frame)))))"
    unfolding unstamped_body_def by (rule nested_collapse)
  have n: "MIMEHeader_Get unstamped_body ''Event-Date-Timestamp'' = []"
    by code_simp
  have s: "snd (Atoi (Event_Get ?e1 ''Event-Date-Timestamp'')) = Some (NumError ''Atoi'' [] ErrSyntax)"
    by code_simp
  have u: "Event_Get ?e1 ''Unique-ID'' = ''abc-123''"
    by code_simp
  have m: "fst (EventNameString (Event_Get ?e1 ''Event-Name'')) = CHANNEL_ANSWER"
    by code_simp
  have "\<exists>e'. NewEventFromReader unstamped_frame
             = Returns ((Some e', Some (NumError ''Atoi'' [] ErrSyntax)), [])
           \<and> Type e' = EventGeneric \<and> UId e' = ''abc-123'' \<and> Name e' = CHANNEL_ANSWER"
    using timestamp_failure [OF rd ct nb refl disjI1 [OF conjI [OF o n]]] s u m by auto
  with rd ct o n show ?thesis
    by (intro conjI)
qed


section \<open>The command serializer\<close>

text \<open>The lines of a text: \<open>strings.Split(s, "\n")\<close>, the last entry being what follows the last newline.\<close>

fun split_lines :: "bytes \<Rightarrow> bytes list" where
  "split_lines [] = [[]]"
| "split_lines (c # cs) =
     (if c = LF then [] # split_lines cs
      else case split_lines cs of [] \<Rightarrow> [[c]] | l # ls \<Rightarrow> (c # l) # ls)"

text \<open>
  The layout that the specification gives to a serialized command: four lines that are
  not empty, ended by one blank line, and nothing after it.
\<close>

definition four_lines_and_blank :: "bytes \<Rightarrow> bool" where
  "four_lines_and_blank s \<longleftrightarrow>
     (case split_lines s of
        [l1, l2, l3, l4, blank, rest] \<Rightarrow>
          l1 \<noteq> [] \<and> l2 \<noteq> [] \<and> l3 \<noteq> [] \<and> l4 \<noteq> [] \<and> blank = [] \<and> rest = []
      | _ \<Rightarrow> False)"

lemma split_lines_line:
  "LF \<notin> set l \<Longrightarrow> split_lines (l @ LF # rest) = l # split_lines rest"
  by (induction l) auto

text \<open>A command that plays music on hold on a call leg.\<close>

definition playback :: Command where
  "playback = \<lparr>Sync = False, Command_UId = ''abc-123'', Command_App = ''playback'',
                Args = ''local_stream://moh''\<rparr>"

text \<open>
  Claim C8, as stated: the output of \<open>Command.Serialize\<close> is exactly a target line that
  names the call leg and declares the \<open>execute\<close> action, an application-name line, an
  application-argument line and an event-lock line, ended by a blank line. It fails on
  every command, here on \<open>playback\<close>: the target and the action are two lines, and
  three newlines end the output, so that two empty lines follow the event-lock line.
\<close>

theorem Serialize_counterexample:
  "split_lines (Serialize playback)
   = [''sendmsg abc-123'', ''call-command: execute'', ''execute-app-name: playback'',
      ''execute-app-arg: local_stream://moh'', ''event-lock: false'', [], [], []]
   \<and> \<not> four_lines_and_blank (Serialize playback)"
proof -
  have "split_lines (Serialize playback)
   = [''sendmsg abc-123'', ''call-command: execute'', ''execute-app-name: playback'',
      ''execute-app-arg: local_stream://moh'', ''event-lock: false'', [], [], []]"
    by code_simp
  moreover have "\<not> four_lines_and_blank (Serialize playback)"
    by code_simp
  ultimately show ?thesis
    by (intro conjI)
qed

text \<open>
  Claim C8, amended. \<open>Command.Serialize\<close> is a total function of the command: its output
  is exactly the line \<open>sendmsg\<close> with the call-leg id, the line
  \<open>call-command: execute\<close>, the line of the application name, the line of the application
  argument and the event-lock line, whose value is \<open>true\<close> when \<open>Sync\<close> is set and
  \<open>false\<close> otherwise, each ended by a newline, followed by two more newlines. When no
  field of the command holds a newline, these are five lines followed by two empty lines.
\<close>

theorem Serialize_lines:
  "Serialize cmd =
     concat (map (\<lambda>l. l @ [LF])
       [''sendmsg '' @ Command_UId cmd,
        ''call-command: execute'',
        ''execute-app-name: '' @ Command_App cmd,
        ''execute-app-arg: '' @ Args cmd,
        ''event-lock: '' @ (if Sync cmd then ''true'' else ''false''),
        [], []])
   \<and> (LF \<notin> set (Command_UId cmd) \<and> LF \<notin> set (Command_App cmd) \<and> LF \<notin> set (Args cmd) \<longrightarrow>
        split_lines (Serialize cmd)
        = [''sendmsg '' @ Command_UId cmd,
           ''call-command: execute'',
           ''execute-app-name: '' @ Command_App cmd,
           ''execute-app-arg: '' @ Args cmd,
           ''event-lock: '' @ (if Sync cmd then ''true'' else ''false''),
           [], [], []])"
proof (intro conjI impI)
  show b: "Serialize cmd =
     concat (map (\<lambda>l. l @ [LF])
       [''sendmsg '' @ Command_UId cmd,
        ''call-command: execute'',
        ''execute-app-name: '' @ Command_App cmd,
        ''execute-app-arg: '' @ Args cmd,
        ''event-lock: '' @ (if Sync cmd then ''true'' else ''false''),
        [], []])"
    by (simp add: Serialize_def)
  assume n: "LF \<notin> set (Command_UId cmd) \<and> LF \<notin> set (Command_App cmd) \<and> LF \<notin> set (Args cmd)"
  let ?l1 = "''sendmsg '' @ Command_UId cmd"
  let ?l2 = "''call-command: execute''"
  let ?l3 = "''execute-app-name: '' @ Command_App cmd"
  let ?l4 = "''execute-app-arg: '' @ Args cmd"
  let ?l5 = "''event-lock: '' @ (if Sync cmd then ''true'' else ''false'')"
  have f: "LF \<notin> set ?l1" "LF \<notin> set ?l2" "LF \<notin> set ?l3" "LF \<notin> set ?l4" "LF \<notin> set ?l5"
    using n by auto
  have s: "Serialize cmd = ?l1 @ LF # ?l2 @ LF # ?l3 @ LF # ?l4 @ LF # ?l5 @ LF # [LF, LF]"
    by (simp add: Serialize_def)
  have e: "split_lines [LF, LF] = [[], [], []]"
    by simp
  show "split_lines (Serialize cmd) = [?l1, ?l2, ?l3, ?l4, ?l5, [], [], []]"
    unfolding s
    by (simp only: split_lines_line [OF f(1)] split_lines_line [OF f(2)] split_lines_line [OF f(3)]
                   split_lines_line [OF f(4)] split_lines_line [OF f(5)] e)
qed

theorem Serialize_lines_witness:
  "LF \<notin> set (Command_UId playback) \<and> LF \<notin> set (Command_App playback)
   \<and> LF \<notin> set (Args playback)
   \<and> Serialize playback
      = ''sendmsg abc-123\<newline>call-command: execute\<newline>execute-app-name: playback\<newline>execute-app-arg: local_stream://moh\<newline>event-lock: false\<newline>\<newline>\<newline>''
   \<and> length (split_lines (Serialize playback)) = 8"
proof -
  have n: "LF \<notin> set (Command_UId playback) \<and> LF \<notin> set (Command_App playback)
           \<and> LF \<notin> set (Args playback)"
    by (simp add: playback_def)
  have "Serialize playback
      = ''sendmsg abc-123\<newline>call-command: execute\<newline>execute-app-name: playback\<newline>execute-app-arg: local_stream://moh\<newline>event-lock: false\<newline>\<newline>\<newline>''"
    using Serialize_lines [of playback] by (simp add: playback_def)
  moreover have "split_lines (Serialize playback)
        = [''sendmsg '' @ Command_UId playback,
           ''call-command: execute'',
           ''execute-app-name: '' @ Command_App playback,
           ''execute-app-arg: '' @ Args playback,
           ''event-lock: '' @ (if Sync playback then ''true'' else ''false''),
           [], [], []]"
    using Serialize_lines [of playback] n by blast
  then have "length (split_lines (Serialize playback)) = 8"
    by simp
  ultimately show ?thesis
    using n by (intro conjI) simp_all
qed

section \<open>The text body of an event\<close>

text \<open>
  Claim C10. \<open>Event.GetTextBody\<close> returns the empty string when the nested header has no
  \<open>Content-Length\<close> or one that \<open>Atoi\<close> rejects. When the value parses as \<open>n\<close>, it returns
  the last \<open>n\<close> bytes of the raw body without the final byte if \<open>0 < n\<close> and \<open>n\<close> is at
  most the length of the raw body; for every other \<open>n\<close> (in particular \<open>n\<close> above the
  length, so any positive \<open>n\<close> on an empty raw body) the slice expression is out of
  bounds and the call panics.
\<close>

theorem GetTextBody_cases:
  fixes e :: Event
  defines "slen \<equiv> MIMEMap_Get (Body e) ''Content-Length''"
  shows "(slen = [] \<or> snd (Atoi slen) \<noteq> None \<longrightarrow> GetTextBody e = Returns [])
       \<and> (slen \<noteq> [] \<and> snd (Atoi slen) = None \<longrightarrow>
            (let n = fst (Atoi slen) in
             if 0 < n \<and> n \<le> int (length (RawBody e))
             then GetTextBody e
                  = Returns (butlast (drop (length (RawBody e) - nat n) (RawBody e)))
             else GetTextBody e = Panics SliceBoundsOutOfRange))"
proof (intro conjI impI)
  assume "slen = [] \<or> snd (Atoi slen) \<noteq> None"
  then show "GetTextBody e = Returns []"
    by (auto simp: GetTextBody_def slen_def Let_def split: prod.splits option.splits)
next
  assume a: "slen \<noteq> [] \<and> snd (Atoi slen) = None"
  obtain n where n: "Atoi slen = (n, None)"
    using a by (cases "Atoi slen") auto
  have g: "GetTextBody e
           = slice (RawBody e) (int (length (RawBody e)) - n) (int (length (RawBody e)) - 1)"
    using a n by (simp add: GetTextBody_def slen_def [symmetric] Let_def)
  show "let n = fst (Atoi slen) in
        if 0 < n \<and> n \<le> int (length (RawBody e))
        then GetTextBody e = Returns (butlast (drop (length (RawBody e) - nat n) (RawBody e)))
        else GetTextBody e = Panics SliceBoundsOutOfRange"
    using slice_last [of n "RawBody e"] slice_panics [of n "RawBody e"]
    by (auto simp: n g Let_def)
qed

text \<open>
  An event of a finished background job: the nested header declares a text of 4 bytes,
  and the raw body ends with these 4 bytes.
\<close>

definition job_event :: "bytes \<Rightarrow> Event" where
  "job_event raw =
     Event_zero\<lparr>Body := \<lparr>Map = [''Content-Length'' \<mapsto> [''4'']], IsEscaped = True\<rparr>,
                 RawBody := raw\<rparr>"

theorem GetTextBody_cases_witness:
  "MIMEMap_Get (Body (job_event ''Content-Length: 4\<newline>\<newline>+OK\<newline>'')) ''Content-Length'' = ''4''
   \<and> Atoi ''4'' = (4, None)
   \<and> GetTextBody (job_event ''Content-Length: 4\<newline>\<newline>+OK\<newline>'') = Returns ''+OK''
   \<and> GetTextBody (job_event ''OK\<newline>'') = Panics SliceBoundsOutOfRange
   \<and> GetTextBody Event_zero = Returns []"
proof -
  have g: "MIMEMap_Get (Body (job_event raw)) ''Content-Length'' = ''4''" for raw
    by code_simp
  have a: "Atoi ''4'' = (4, None)"
    by code_simp
  have r: "RawBody (job_event raw) = raw" for raw
    by (simp add: job_event_def)
  have z: "MIMEMap_Get (Body Event_zero) ''Content-Length'' = []"
    by code_simp
  show ?thesis
    using GetTextBody_cases [of "job_event ''Content-Length: 4\<newline>\<newline>+OK\<newline>''"]
      GetTextBody_cases [of "job_event ''OK\<newline>''"]
      GetTextBody_cases [of Event_zero]
    by (simp add: g a r z)
qed

section \<open>Requests that wait for their answer\<close>

text \<open>
  A connection on which nothing was read or written yet, a handler whose hooks leave
  the connection as it is, and the frame of a successful command reply.
\<close>

definition idle :: Connection where
  "idle = \<lparr>socket_closed = False, buffer = [], written = [], werr = None,
           cmdReply_receivers = 0, cmdReply_received = [], apiResp_receivers = 0,
           apiResp_received = [], Password = ''ClueCon'', Connected = False, calls = []\<rparr>"

definition quiet :: ConnectionHandler where
  "quiet = \<lparr>OnDisconnect = (\<lambda>con ev. con), OnClose = (\<lambda>con. con)\<rparr>"

definition ok_reply_frame :: bytes where
  "ok_reply_frame = ''Content-Type: command/reply\<newline>Reply-Text: +OK\<newline>\<newline>''"

lemma event_collapse:
  assumes "is_Returns x" and "\<not> Option.is_none (fst (fst (result x)))"
    and "snd (fst (result x)) = err" and "snd (result x) = r"
  shows "x = Returns ((Some (the (fst (fst (result x)))), err), r)"
proof -
  obtain y where y: "x = Returns y"
    using assms(1) by (cases x) auto
  obtain a b c where abc: "y = ((a, b), c)"
    by (cases y) auto
  show ?thesis
    using assms(2-4) y abc by (auto simp: Option.is_none_def)
qed

lemma decode_end_of_stream: "NewEventFromReader [] = Returns ((None, Some EOF), [])"
proof -
  have "is_Returns (NewEventFromReader [])"
    and "Option.is_none (fst (fst (result (NewEventFromReader []))))"
    and "snd (fst (result (NewEventFromReader []))) = Some EOF"
    and "snd (result (NewEventFromReader [])) = []"
    by code_simp+
  then show ?thesis
    by (rule failure_collapse)
qed

text \<open>
  Claim C4, as stated: \<open>Command.Execute\<close>, like \<open>SendRecv\<close>, inspects the reply text of
  the event it receives and returns a failure when the text carries the failure marker.
  It fails on a reply that the decoder accepts (its text contains \<open>+OK\<close>) and that starts
  with \<open>-ERR\<close>: \<open>Command.Execute\<close> returns the event and no error.
\<close>

definition err_reply_frame :: bytes where
  "err_reply_frame = ''Content-Type: command/reply\<newline>Reply-Text: -ERR invalid session id, expected +OK\<newline>\<newline>''"

definition err_reply :: Event where
  "err_reply = the (fst (fst (result (NewEventFromReader err_reply_frame))))"

theorem execute_counterexample:
  "is_Returns (NewEventFromReader err_reply_frame)
   \<and> fst (result (NewEventFromReader err_reply_frame)) = (Some err_reply, None)
   \<and> Type err_reply = EventCommandReply
   \<and> HasPrefix (Event_Get err_reply ''Reply-Text'') ''-ERR''
   \<and> snd (Command_Execute playback (idle\<lparr>Connected := True\<rparr>) err_reply) = (Some err_reply, None)"
proof -
  have a: "is_Returns (NewEventFromReader err_reply_frame)"
    by code_simp
  have "\<not> Option.is_none (fst (fst (result (NewEventFromReader err_reply_frame))))"
    and "Option.is_none (snd (fst (result (NewEventFromReader err_reply_frame))))"
    by code_simp+
  then have b: "fst (result (NewEventFromReader err_reply_frame)) = (Some err_reply, None)"
    unfolding err_reply_def
    by (cases "fst (result (NewEventFromReader err_reply_frame))") (auto simp: Option.is_none_def)
  have c: "Type err_reply = EventCommandReply"
    by code_simp
  have d: "HasPrefix (Event_Get err_reply ''Reply-Text'') ''-ERR''"
    by code_simp
  have e: "snd (Command_Execute playback (idle\<lparr>Connected := True\<rparr>) err_reply)
           = (Some err_reply, None)"
    by (simp add: Command_Execute_def Write_def idle_def)
  from a b c d e show ?thesis
    by (intro conjI)
qed

text \<open>
  Claim C4, amended. After a write that succeeds and the receipt of the event \<open>ev\<close>
  from the channel: \<open>SendRecv\<close> returns a failure when the reply text of \<open>ev\<close> starts
  with \<open>-ERR\<close> and the event itself otherwise; \<open>Api\<close> returns a failure when the raw
  body of \<open>ev\<close>, trimmed, starts with \<open>-ERR\<close> and the raw body as it is otherwise;
  \<open>Command.Execute\<close> returns the event it receives without inspecting it. Each of the
  three has written its request before.
\<close>

theorem requests_inspect_reply:
  assumes w: "werr con = None"
  shows "(HasPrefix (Event_Get ev ''Reply-Text'') ''-ERR'' \<longrightarrow>
            (\<exists>msg. snd (SendRecv con cmd args ev) = (None, Some (Errorf msg))))
       \<and> (\<not> HasPrefix (Event_Get ev ''Reply-Text'') ''-ERR'' \<longrightarrow>
            snd (SendRecv con cmd args ev) = (Some ev, None))
       \<and> (HasPrefix (TrimSpace (RawBody ev)) ''-ERR'' \<longrightarrow>
            (\<exists>msg. snd (Api con cmd args ev) = ([], Some (Errorf msg))))
       \<and> (\<not> HasPrefix (TrimSpace (RawBody ev)) ''-ERR'' \<longrightarrow>
            snd (Api con cmd args ev) = (RawBody ev, None))
       \<and> snd (Command_Execute c con ev) = (Some ev, None)
       \<and> written (fst (SendRecv con cmd args ev))
           = written con @ cmd @ concat (map (\<lambda>arg. '' '' @ arg) args) @ [LF, LF]
       \<and> written (fst (Api con cmd args ev))
           = written con @ ''api '' @ cmd @ concat (map (\<lambda>arg. '' '' @ arg) args) @ [LF, LF]
       \<and> written (fst (Command_Execute c con ev)) = written con @ Serialize c"
  using w by (simp add: SendRecv_def Api_def Command_Execute_def Write_def Let_def)

text \<open>A successful reply to \<open>event plain ALL\<close>, and the answer to an unknown query.\<close>

definition ok_reply :: Event where
  "ok_reply = the (fst (fst (result (NewEventFromReader ok_reply_frame))))"

definition err_response :: Event where
  "err_response = Event_zero\<lparr>Type := EventApiResponse, RawBody := ''-ERR no such command\<newline>''\<rparr>"

theorem requests_inspect_reply_witness:
  "werr idle = None
   \<and> \<not> HasPrefix (Event_Get ok_reply ''Reply-Text'') ''-ERR''
   \<and> snd (SendRecv idle ''event'' [''plain'', ''ALL''] ok_reply) = (Some ok_reply, None)
   \<and> written (fst (SendRecv idle ''event'' [''plain'', ''ALL''] ok_reply))
       = ''event plain ALL\<newline>\<newline>''
   \<and> HasPrefix (TrimSpace (RawBody err_response)) ''-ERR''
   \<and> (\<exists>msg. snd (Api idle ''status'' [] err_response) = ([], Some (Errorf msg)))"
proof -
  have w: "werr idle = None"
    by (simp add: idle_def)
  have n: "\<not> HasPrefix (Event_Get ok_reply ''Reply-Text'') ''-ERR''"
    by code_simp
  have p: "HasPrefix (TrimSpace (RawBody err_response)) ''-ERR''"
    by code_simp
  have wr: "written idle = []"
    by (simp add: idle_def)
  have r: "snd (SendRecv idle ''event'' [''plain'', ''ALL''] ok_reply) = (Some ok_reply, None)
           \<and> written (fst (SendRecv idle ''event'' [''plain'', ''ALL''] ok_reply))
              = ''event plain ALL\<newline>\<newline>''"
    using requests_inspect_reply [OF w, of ok_reply "''event''" "[''plain'', ''ALL'']"] n wr
    by simp
  have q: "\<exists>msg. snd (Api idle ''status'' [] err_response) = ([], Some (Errorf msg))"
    using requests_inspect_reply [OF w, of err_response "''status''" "[]"] p
    by blast
  from w n r p q show ?thesis
    by blast
qed


section \<open>Authentication\<close>

text \<open>
  Claim C5 holds that \<open>Authenticate\<close> closes the socket and returns an error when the
  decoding of the first frame fails or the first frame is no \<open>Auth-Request\<close>. The code
  does so for a first frame of another type. When the decoder fails and returns no event,
  as it does at the end of the stream, on a malformed header block, on a bad or short body
  and on a command error, the code closes the socket and then reads \<open>ev.Type\<close> through
  the nil pointer: the call panics and returns no error. The theorem states both
  behaviours of the code.
\<close>

theorem Authenticate_first_frame:
  assumes d: "NewEventFromReader (buffer con) = Returns ((ev, err), r)"
  shows "(ev = None \<and> err \<noteq> None \<longrightarrow>
            Authenticate con = (con\<lparr>buffer := r, socket_closed := True\<rparr>, Panics NilDereference))
       \<and> (\<forall>v. ev = Some v \<and> Type v \<noteq> EventAuth \<longrightarrow>
            Authenticate con = (con\<lparr>buffer := r, socket_closed := True\<rparr>,
                                Returns (Some (Errorf ''bad auth preamble''))))"
  using d by (auto simp: Authenticate_def Let_def)

text \<open>The peer closes the stream before it sends a frame.\<close>

theorem Authenticate_first_frame_witness:
  "NewEventFromReader (buffer idle) = Returns ((None, Some EOF), [])
   \<and> Authenticate idle = (idle\<lparr>buffer := [], socket_closed := True\<rparr>, Panics NilDereference)"
proof -
  have b: "buffer idle = []"
    by (simp add: idle_def)
  have d: "NewEventFromReader (buffer idle) = Returns ((None, Some EOF), [])"
    unfolding b by (rule decode_end_of_stream)
  show ?thesis
    using Authenticate_first_frame [OF d] d by simp
qed


section \<open>The read loop\<close>

text \<open>
  Claim C2, as stated: an end of stream met while the connection is connected closes
  the connection and reports a failure, and the loop goes on in every case that the claim
  does not list. It fails on a connected connection whose stream has ended: the loop
  returns nil and neither clears the flag nor closes the socket. It fails also on a
  frame without content type: the loop exits with an error.
\<close>

theorem HandleEvents_counterexample:
  "HandleEvents quiet id (idle\<lparr>Connected := True\<rparr>) = Some (idle\<lparr>Connected := True\<rparr>, Returns None)
   \<and> Connected (idle\<lparr>Connected := True\<rparr>)
   \<and> \<not> socket_closed (idle\<lparr>Connected := True\<rparr>)
   \<and> HandleEvents quiet id (idle\<lparr>Connected := True, buffer := [LF]\<rparr>)
       = Some (idle\<lparr>Connected := True\<rparr>, Returns (Some (Errorf ''invalid event'')))"
proof -
  have a: "HandleEvents quiet id (idle\<lparr>Connected := True\<rparr>)
           = Some (idle\<lparr>Connected := True\<rparr>, Returns None)"
    by (subst HandleEvents.simps) (simp add: HandleEvents_turn_def idle_def decode_end_of_stream)
  have "is_Returns (NewEventFromReader [LF])"
    and "\<not> Option.is_none (fst (fst (result (NewEventFromReader [LF]))))"
    and "snd (fst (result (NewEventFromReader [LF]))) = None"
    and "snd (result (NewEventFromReader [LF])) = []"
    by code_simp+
  then have e: "NewEventFromReader [LF]
                = Returns ((Some (the (fst (fst (result (NewEventFromReader [LF]))))), None), [])"
    by (rule event_collapse)
  have t: "Type (the (fst (fst (result (NewEventFromReader [LF]))))) = EventError"
    by code_simp
  have b: "HandleEvents quiet id (idle\<lparr>Connected := True, buffer := [LF]\<rparr>)
       = Some (idle\<lparr>Connected := True\<rparr>, Returns (Some (Errorf ''invalid event'')))"
    apply (subst HandleEvents.simps)
    apply (simp add: HandleEvents_turn_def)
    apply (subst e)
    apply (simp add: t idle_def)
    done
  from a b show ?thesis
    by (simp add: idle_def)
qed

text \<open>
  Claim C2, amended. \<open>HandleEvents\<close> returns the error \<open>disconnected\<close> when it finds
  the connection not connected at the start of a turn of its loop. On a connection that
  is connected then: a panic of the decoder ends the call with that panic; an end of
  stream makes it return nil, whatever the state of the connection; every other failure
  of the decoder makes it return nil when the connection is no longer connected, and
  close the connection and return the failure when it still is; a frame of the default
  type \<open>EventError\<close> makes it return an error; a command reply or an API response is
  handed to a caller that waits, or comes to wait, on the channel of its kind, and the
  call never returns when there is no such caller; after the hand-over, and after a
  frame of any other type, which goes to the handler, the loop goes on with the next
  frame.
\<close>

theorem HandleEvents_exits:
  "(\<not> Connected con \<longrightarrow>
      HandleEvents H others con = Some (con, Returns (Some (Errorf ''disconnected''))))
   \<and> (Connected con \<and> NewEventFromReader (buffer con) = Panics p \<longrightarrow>
        HandleEvents H others con = Some (con, Panics p))
   \<and> (Connected con \<and> NewEventFromReader (buffer con) = Returns ((ev, err), r)
        \<and> con1 = others (con\<lparr>buffer := r\<rparr>) \<longrightarrow>
        (err = Some EOF \<longrightarrow> HandleEvents H others con = Some (con1, Returns None))
      \<and> (err \<noteq> None \<and> \<not> Connected con1 \<longrightarrow>
            HandleEvents H others con = Some (con1, Returns None))
      \<and> (\<forall>e. err = Some e \<and> e \<noteq> EOF \<and> Connected con1 \<longrightarrow>
            HandleEvents H others con
            = Some (Close H con1, Returns (Some (Wrapf ''event read loop: '' e))))
      \<and> (\<forall>v. err = None \<and> ev = Some v \<longrightarrow>
            (case Type v of
               EventError \<Rightarrow>
                 HandleEvents H others con = Some (con1, Returns (Some (Errorf ''invalid event'')))
             | EventDisconnect \<Rightarrow>
                 HandleEvents H others con
                 = HandleEvents H others
                     (OnDisconnect H (con1\<lparr>calls := calls con1 @ [CallOnDisconnect v]\<rparr>) v)
             | EventCommandReply \<Rightarrow>
                 HandleEvents H others con
                 = (if cmdReply_receivers con1 = 0 then None
                    else HandleEvents H others
                           (con1\<lparr>cmdReply_receivers := cmdReply_receivers con1 - 1,
                                  cmdReply_received := cmdReply_received con1 @ [v]\<rparr>))
             | EventApiResponse \<Rightarrow>
                 HandleEvents H others con
                 = (if apiResp_receivers con1 = 0 then None
                    else HandleEvents H others
                           (con1\<lparr>apiResp_receivers := apiResp_receivers con1 - 1,
                                  apiResp_received := apiResp_received con1 @ [v]\<rparr>))
             | EventGeneric \<Rightarrow>
                 HandleEvents H others con
                 = HandleEvents H others (con1\<lparr>calls := calls con1 @ [GoOnEvent v]\<rparr>)
             | _ \<Rightarrow> HandleEvents H others con = HandleEvents H others con1)))"
proof (intro conjI impI)
  assume "\<not> Connected con"
  then show "HandleEvents H others con = Some (con, Returns (Some (Errorf ''disconnected'')))"
    by (subst HandleEvents.simps) simp
next
  assume "Connected con \<and> NewEventFromReader (buffer con) = Panics p"
  then show "HandleEvents H others con = Some (con, Panics p)"
    by (subst HandleEvents.simps) (simp add: HandleEvents_turn_def)
next
  assume a: "Connected con \<and> NewEventFromReader (buffer con) = Returns ((ev, err), r)
             \<and> con1 = others (con\<lparr>buffer := r\<rparr>)"
  then have t: "HandleEvents H others con =
      (case HandleEvents_turn H others con of
         Exit con' res \<Rightarrow> Some (con', res)
       | Continue con' \<Rightarrow> HandleEvents H others con'
       | Blocked \<Rightarrow> None)"
    by (subst HandleEvents.simps) simp
  from a have d: "NewEventFromReader (buffer con) = Returns ((ev, err), r)"
    and o: "con1 = others (con\<lparr>buffer := r\<rparr>)"
    by simp_all
  {
    assume "err = Some EOF"
    then show "HandleEvents H others con = Some (con1, Returns None)"
      by (simp add: t HandleEvents_turn_def d o)
  }
  {
    assume "err \<noteq> None \<and> \<not> Connected con1"
    then show "HandleEvents H others con = Some (con1, Returns None)"
      by (auto simp: t HandleEvents_turn_def d o)
  }
  show "\<forall>e. err = Some e \<and> e \<noteq> EOF \<and> Connected con1 \<longrightarrow>
            HandleEvents H others con
            = Some (Close H con1, Returns (Some (Wrapf ''event read loop: '' e)))"
    by (simp add: t HandleEvents_turn_def d o)
  show "\<forall>v. err = None \<and> ev = Some v \<longrightarrow>
            (case Type v of
               EventError \<Rightarrow>
                 HandleEvents H others con = Some (con1, Returns (Some (Errorf ''invalid event'')))
             | EventDisconnect \<Rightarrow>
                 HandleEvents H others con
                 = HandleEvents H others
                     (OnDisconnect H (con1\<lparr>calls := calls con1 @ [CallOnDisconnect v]\<rparr>) v)
             | EventCommandReply \<Rightarrow>
                 HandleEvents H others con
                 = (if cmdReply_receivers con1 = 0 then None
                    else HandleEvents H others
                           (con1\<lparr>cmdReply_receivers := cmdReply_receivers con1 - 1,
                                  cmdReply_received := cmdReply_received con1 @ [v]\<rparr>))
             | EventApiResponse \<Rightarrow>
                 HandleEvents H others con
                 = (if apiResp_receivers con1 = 0 then None
                    else HandleEvents H others
                           (con1\<lparr>apiResp_receivers := apiResp_receivers con1 - 1,
                                  apiResp_received := apiResp_received con1 @ [v]\<rparr>))
             | EventGeneric \<Rightarrow>
                 HandleEvents H others con
                 = HandleEvents H others (con1\<lparr>calls := calls con1 @ [GoOnEvent v]\<rparr>)
             | _ \<Rightarrow> HandleEvents H others con = HandleEvents H others con1)"
    by (simp add: t HandleEvents_turn_def d o Let_def split: EventType.splits)
qed

text \<open>
  A command reply followed by the end of the stream. With a caller that waits for the
  reply, one turn hands it over and the next returns; without one the call never returns.
\<close>

theorem HandleEvents_exits_witness:
  "Connected (idle\<lparr>Connected := True, cmdReply_receivers := 1, buffer := ok_reply_frame\<rparr>)
   \<and> is_Returns (NewEventFromReader ok_reply_frame)
   \<and> snd (fst (result (NewEventFromReader ok_reply_frame))) = None
   \<and> Type (the (fst (fst (result (NewEventFromReader ok_reply_frame))))) = EventCommandReply
   \<and> HandleEvents quiet id (idle\<lparr>Connected := True, cmdReply_receivers := 1,
                                  buffer := ok_reply_frame\<rparr>)
       = Some (idle\<lparr>Connected := True,
                    cmdReply_received
                      := [the (fst (fst (result (NewEventFromReader ok_reply_frame))))]\<rparr>,
               Returns None)
   \<and> HandleEvents quiet id (idle\<lparr>Connected := True, buffer := ok_reply_frame\<rparr>) = None"
proof -
  let ?v = "the (fst (fst (result (NewEventFromReader ok_reply_frame))))"
  let ?c = "idle\<lparr>Connected := True, cmdReply_receivers := 1, buffer := ok_reply_frame\<rparr>"
  let ?c' = "idle\<lparr>Connected := True, cmdReply_received := [?v]\<rparr>"
  let ?b = "idle\<lparr>Connected := True, buffer := ok_reply_frame\<rparr>"
  have r: "is_Returns (NewEventFromReader ok_reply_frame)"
    and s: "\<not> Option.is_none (fst (fst (result (NewEventFromReader ok_reply_frame))))"
    and n: "snd (fst (result (NewEventFromReader ok_reply_frame))) = None"
    and m: "snd (result (NewEventFromReader ok_reply_frame)) = []"
    by code_simp+
  have d: "NewEventFromReader (buffer ?c) = Returns ((Some ?v, None), [])"
    using event_collapse [OF r s n m] by simp
  have t: "Type ?v = EventCommandReply"
    by code_simp
  have c: "Connected ?c"
    by simp
  have step: "HandleEvents quiet id ?c = HandleEvents quiet id ?c'"
    using HandleEvents_exits [of ?c quiet id _ "Some ?v" None "[]" "id (?c\<lparr>buffer := []\<rparr>)"] c d t
    by (simp add: idle_def)
  have c': "Connected ?c'"
    by simp
  have d': "NewEventFromReader (buffer ?c') = Returns ((None, Some EOF), [])"
    using decode_end_of_stream by (simp add: idle_def)
  have last: "HandleEvents quiet id ?c' = Some (?c', Returns None)"
    using HandleEvents_exits [of ?c' quiet id _ None "Some EOF" "[]" "id (?c'\<lparr>buffer := []\<rparr>)"] c' d'
    by (simp add: idle_def)
  have db: "NewEventFromReader (buffer ?b) = Returns ((Some ?v, None), [])"
    using event_collapse [OF r s n m] by simp
  have blocked: "HandleEvents quiet id ?b = None"
    using HandleEvents_exits [of ?b quiet id _ "Some ?v" None "[]" "id (?b\<lparr>buffer := []\<rparr>)"] db t
    by (simp add: idle_def)
  from c r n t step last blocked show ?thesis
    by simp
qed

end
